theory Spec2Isabelle
  imports Main "HOL-Library.AList"
begin

section \<open>Errors\<close>

text \<open>
  Every exception the modelled code raises or lets through is a value of this type.
  \<open>OtherError s\<close> stands for any exception of a collaborator (the language-model runner,
  the HTTP transport, the card resolver) whose \<^verbatim>\<open>str(e)\<close> is \<open>s\<close>.
\<close>

datatype error =
    ValueError string
  | AttributeError string
  | TypeError string
  | ValidationError string
  | TimeoutError
  | Base64Error
  | HTTPException nat string
  | OtherError string

fun error_str :: "error \<Rightarrow> string" where
  "error_str (ValueError s) = s"
| "error_str (AttributeError s) = s"
| "error_str (TypeError s) = s"
| "error_str (ValidationError s) = s"
| "error_str TimeoutError = []"
| "error_str Base64Error = ''Incorrect padding''"
| "error_str (HTTPException c s) = s"
| "error_str (OtherError s) = s"

section \<open>Data model (a2a.types as the code uses them)\<close>

text \<open>A JSON value: the payload of a data part and of a function response.\<close>

datatype json = JNull | JStr string | JList "json list" | JDict "(string \<times> json) list"

text \<open>
  \<^verbatim>\<open>AgentCard\<close>: only the attributes the code reads
  (\<^verbatim>\<open>name\<close>, \<^verbatim>\<open>description\<close>, \<^verbatim>\<open>url\<close>, \<^verbatim>\<open>capabilities.streaming\<close>,
  which is an optional bool).
\<close>

record agent_card =
  card_name :: string
  card_description :: string
  card_url :: string
  card_streaming :: "bool option"

datatype task_state =
    Submitted | Working | InputRequired | Completed | Canceled | Failed
  | Rejected | AuthRequired | Unknown

text \<open>A file part carries its bytes base64-encoded, or only a URI (no \<^verbatim>\<open>bytes\<close> attribute).\<close>

datatype file_content =
    FileWithBytes "string option" "string option" string
  | FileWithUri "string option" "string option" string

datatype part = TextPart string | DataPart json | FilePart file_content

record message =
  msg_role :: string
  msg_parts :: "part list"
  msg_messageId :: string
  msg_contextId :: "string option"
  msg_taskId :: "string option"

record artifact =
  art_name :: "string option"
  art_parts :: "part list"

record task =
  task_id :: string
  task_contextId :: string
  task_status_state :: task_state
  task_status_message :: "message option"
  task_artifacts :: "artifact list"

text \<open>
  What a task-observer callback receives (\<^verbatim>\<open>TaskCallbackArg\<close>): a task, a status update
  (task id, state, \<^verbatim>\<open>final\<close> flag) or an artifact update (which has no \<^verbatim>\<open>final\<close>
  attribute).
\<close>

datatype task_event =
    EventTask task
  | TaskStatusUpdateEvent string task_state bool
  | TaskArtifactUpdateEvent string artifact

type_synonym task_update_callback = "task_event \<Rightarrow> agent_card \<Rightarrow> task"

datatype jsonrpc_error = JSONRPCError int string

record message_send_params =
  params_id :: string
  params_message :: message
  params_acceptedOutputModes :: "string list"

text \<open>One element of the streamed exchange, and the answer to the unary call.\<close>

datatype stream_response =
    StreamError jsonrpc_error
  | StreamMessage message
  | StreamTaskEvent task_event

datatype unary_response =
    UnaryError jsonrpc_error
  | UnaryMessage message
  | UnaryTask task

text \<open>
  \<^verbatim>\<open>A2AClient\<close>: the remote peer as the connection sees it. The unary call returns a
  response or raises (transport error, timeout); the streamed call yields a sequence of
  responses and then ends, or raises after them.
\<close>

record a2a_client =
  client_send_message :: "message_send_params \<Rightarrow> error + unary_response"
  client_send_message_streaming ::
    "message_send_params \<Rightarrow> stream_response list \<times> error option"

section \<open>Remote connection (remote\_agent\_connection.py)\<close>

record remote_agent_connections =
  conn_agent_client :: a2a_client
  conn_card :: agent_card

text \<open>The value \<^verbatim>\<open>send_message\<close> returns: \<^verbatim>\<open>Task | Message | None\<close>, or the error object.\<close>

datatype send_result =
    ResultTask task
  | ResultMessage message
  | ResultError jsonrpc_error
  | ResultNone

datatype exchange_kind = Streamed | Unary

text \<open>
  What one call of \<^verbatim>\<open>send_message\<close> did: the value returned (or the exception let
  through), which exchange was opened, how many events were taken from the stream, and
  the events handed to the callback, in order.
\<close>

record send_outcome =
  outcome :: "error + send_result"
  exchange :: exchange_kind
  consumed :: nat
  observed :: "task_event list"

fun event_final :: "task_event \<Rightarrow> bool" where
  "event_final (TaskStatusUpdateEvent tid st final) = final"
| "event_final (EventTask t) = False"
| "event_final (TaskArtifactUpdateEvent tid a) = False"

fun task_result :: "task option \<Rightarrow> send_result" where
  "task_result None = ResultNone"
| "task_result (Some t) = ResultTask t"

text \<open>
  The \<^verbatim>\<open>async for\<close> loop of the streaming branch. \<open>task\<close> is the local variable
  \<^verbatim>\<open>task\<close> (initially \<^verbatim>\<open>None\<close>), \<open>k\<close> counts the responses taken from the stream,
  \<open>obs\<close> collects the callback's arguments. An error envelope
  (\<^verbatim>\<open>JSONRPCErrorResponse\<close>) has no \<^verbatim>\<open>result\<close> attribute, so the loop's first read of
  \<^verbatim>\<open>response.root.result\<close> raises on it. An event object is always truthy, so the
  callback is called exactly when there is one. Only a status update has a \<^verbatim>\<open>final\<close>
  attribute.
\<close>

fun consume_stream ::
  "task_update_callback option \<Rightarrow> agent_card \<Rightarrow> stream_response list \<Rightarrow> error option \<Rightarrow>
   task option \<Rightarrow> nat \<Rightarrow> task_event list \<Rightarrow> (error + send_result) \<times> nat \<times> task_event list"
where
  "consume_stream cb acard [] ending task k obs =
     (case ending of
        None \<Rightarrow> (Inr (task_result task), k, obs)
      | Some e \<Rightarrow> (Inl e, k, obs))"
| "consume_stream cb acard (StreamError e # rs) ending task k obs =
     (Inl (AttributeError ''result''), Suc k, obs)"
| "consume_stream cb acard (StreamMessage m # rs) ending task k obs =
     (Inr (ResultMessage m), Suc k, obs)"
| "consume_stream cb acard (StreamTaskEvent ev # rs) ending task k obs =
     (let task' = (case cb of Some f \<Rightarrow> Some (f ev acard) | None \<Rightarrow> task);
          obs' = (case cb of Some f \<Rightarrow> obs @ [ev] | None \<Rightarrow> obs)
      in if event_final ev then (Inr (task_result task'), Suc k, obs')
         else consume_stream cb acard rs ending task' (Suc k) obs')"

definition RemoteAgentConnections_send_message ::
  "remote_agent_connections \<Rightarrow> message_send_params \<Rightarrow> task_update_callback option \<Rightarrow> bool \<Rightarrow>
   send_outcome"
where
  "RemoteAgentConnections_send_message self request task_callback streaming =
     (if streaming \<and> card_streaming (conn_card self) = Some True then
        (case client_send_message_streaming (conn_agent_client self) request of
           (rs, ending) \<Rightarrow>
             (case consume_stream task_callback (conn_card self) rs ending None 0 [] of
                (res, k, obs) \<Rightarrow>
                  \<lparr>outcome = res, exchange = Streamed, consumed = k, observed = obs\<rparr>))
      else
        (case client_send_message (conn_agent_client self) request of
           Inl e \<Rightarrow> \<lparr>outcome = Inl e, exchange = Unary, consumed = 0, observed = []\<rparr>
         | Inr (UnaryError e) \<Rightarrow>
             \<lparr>outcome = Inr (ResultError e), exchange = Unary, consumed = 0, observed = []\<rparr>
         | Inr (UnaryMessage m) \<Rightarrow>
             \<lparr>outcome = Inr (ResultMessage m), exchange = Unary, consumed = 0, observed = []\<rparr>
         | Inr (UnaryTask t) \<Rightarrow>
             \<lparr>outcome = Inr (ResultTask t), exchange = Unary, consumed = 0,
              observed = (case task_callback of Some f \<Rightarrow> [EventTask t] | None \<Rightarrow> [])\<rparr>))"

section \<open>Agent directory (host\_agent.py, fastapi\_host\_server.py)\<close>

text \<open>
  A \<^verbatim>\<open>HostAgent\<close> together with the class-level registries it shares. A Python dict is
  an association list in insertion order: \<^verbatim>\<open>d[k] = v\<close> is \<open>AList.update\<close> (in place for
  a known key, appended for a new one), \<^verbatim>\<open>d.pop(k)\<close> is \<open>AList.delete\<close>.
  \<open>global_agents\<close> holds the rows (\<^verbatim>\<open>name\<close>, \<^verbatim>\<open>description\<close>) that
  \<^verbatim>\<open>_global_agents\<close> serialises with \<^verbatim>\<open>json.dumps\<close>, one per line.
  \<open>httpx_client\<close> builds the \<^verbatim>\<open>A2AClient\<close> of a card.
\<close>

record host_agent =
  httpx_client :: "agent_card \<Rightarrow> a2a_client"
  task_callback :: "task_update_callback option"
  remote_agent_connections :: "(string \<times> remote_agent_connections) list"
  cards :: "(string \<times> agent_card) list"
  remote_agent_addresses :: "string list"
  global_agents :: "(string \<times> string) list"

definition RemoteAgentConnections_init ::
  "(agent_card \<Rightarrow> a2a_client) \<Rightarrow> agent_card \<Rightarrow> remote_agent_connections"
where
  "RemoteAgentConnections_init client acard =
     \<lparr>conn_agent_client = client acard, conn_card = acard\<rparr>"

text \<open>The registries as the class body leaves them: all empty.\<close>

definition empty_registry ::
  "(agent_card \<Rightarrow> a2a_client) \<Rightarrow> task_update_callback option \<Rightarrow> host_agent"
where
  "empty_registry client cb =
     \<lparr>httpx_client = client, task_callback = cb, remote_agent_connections = [],
      cards = [], remote_agent_addresses = [], global_agents = []\<rparr>"

definition list_remote_agents :: "host_agent \<Rightarrow> (string \<times> string) list" where
  "list_remote_agents self =
     (if remote_agent_connections self = [] then []
      else map (\<lambda>(k, acard). (card_name acard, card_description acard)) (cards self))"

definition refresh_agents :: "host_agent \<Rightarrow> host_agent" where
  "refresh_agents self = self\<lparr>global_agents := list_remote_agents self\<rparr>"

text \<open>
  \<^verbatim>\<open>HostAgent.__init__\<close>: new addresses are appended, known ones skipped. The task it
  schedules is \<open>register_agent_cards\<close> below.
\<close>

fun add_addresses :: "string list \<Rightarrow> string list \<Rightarrow> string list" where
  "add_addresses [] known = known"
| "add_addresses (addr # rest) known =
     add_addresses rest (if addr \<in> set known then known else known @ [addr])"

definition HostAgent_init :: "string list \<Rightarrow> host_agent \<Rightarrow> host_agent" where
  "HostAgent_init addrs self =
     self\<lparr>remote_agent_addresses := add_addresses addrs (remote_agent_addresses self)\<rparr>"

definition store_card :: "agent_card \<Rightarrow> host_agent \<Rightarrow> host_agent" where
  "store_card acard self =
     self\<lparr>remote_agent_connections :=
            AList.update (card_name acard) (RemoteAgentConnections_init (httpx_client self) acard)
              (remote_agent_connections self),
          cards := AList.update (card_name acard) acard (cards self)\<rparr>"

text \<open>
  \<^verbatim>\<open>register_agent_cards\<close>, the task scheduled by the constructor: one card is resolved
  and stored per known address. A resolver failure ends the task there, with the cards
  stored so far and the summary not recomputed.
\<close>

fun register_addresses ::
  "(string \<Rightarrow> error + agent_card) \<Rightarrow> string list \<Rightarrow> host_agent \<Rightarrow> error option \<times> host_agent"
where
  "register_addresses resolver [] self = (None, self)"
| "register_addresses resolver (address # rest) self =
     (case resolver address of
        Inl e \<Rightarrow> (Some e, self)
      | Inr acard \<Rightarrow> register_addresses resolver rest (store_card acard self))"

definition register_agent_cards ::
  "(string \<Rightarrow> error + agent_card) \<Rightarrow> host_agent \<Rightarrow> error option \<times> host_agent"
where
  "register_agent_cards resolver self =
     (case register_addresses resolver (remote_agent_addresses self) self of
        (Some e, self') \<Rightarrow> (Some e, self')
      | (None, self') \<Rightarrow> (None, refresh_agents self'))"

definition register_agent_card :: "agent_card \<Rightarrow> host_agent \<Rightarrow> host_agent" where
  "register_agent_card acard self = refresh_agents (store_card acard self)"

definition remove_agent_card :: "string \<Rightarrow> host_agent \<Rightarrow> error + host_agent" where
  "remove_agent_card agent_name self =
     (case map_of (remote_agent_connections self) agent_name of
        None \<Rightarrow> Inl (ValueError (''Agent '' @ agent_name @ '' not found''))
      | Some connection \<Rightarrow>
          (let popped = self\<lparr>remote_agent_connections :=
                                AList.delete agent_name (remote_agent_connections self),
                              cards := AList.delete agent_name (cards self)\<rparr>;
               agent_url = card_url (conn_card connection);
               cleaned =
                 (if agent_url \<noteq> [] \<and> agent_url \<in> set (remote_agent_addresses popped)
                  then popped\<lparr>remote_agent_addresses :=
                                remove1 agent_url (remote_agent_addresses popped)\<rparr>
                  else popped)
           in Inr (refresh_agents cleaned)))"

text \<open>
  The management surface: \<^verbatim>\<open>add_agent\<close> and \<^verbatim>\<open>remove_agent\<close> of
  fastapi\_host\_server.py. \<open>fetched\<close> is what the card resolver returns for the address.
  Both run under the module's lock, with no suspension point between their writes.
\<close>

definition add_agent :: "string \<Rightarrow> error + agent_card \<Rightarrow> host_agent \<Rightarrow> error + host_agent" where
  "add_agent address fetched self =
     (if address \<in> set (remote_agent_addresses self)
      then Inl (HTTPException 400 ''Agent address already registered'')
      else (case fetched of
              Inl exc \<Rightarrow> Inl (HTTPException 502 (error_str exc))
            | Inr acard \<Rightarrow>
                Inr (register_agent_card acard
                       (self\<lparr>remote_agent_addresses := remote_agent_addresses self @ [address]\<rparr>))))"

definition remove_agent :: "string \<Rightarrow> host_agent \<Rightarrow> error + host_agent" where
  "remove_agent agent_name self =
     (case remove_agent_card agent_name self of
        Inl exc \<Rightarrow> Inl (HTTPException 404 (error_str exc))
      | Inr self' \<Rightarrow> Inr self')"

text \<open>
  unified\_server.py has the same two bodies (its errors are JSON responses with the same
  status codes); its \<^verbatim>\<open>add_agent\<close> first rejects a missing or empty address.
\<close>

definition unified_add_agent ::
  "string \<Rightarrow> error + agent_card \<Rightarrow> host_agent \<Rightarrow> error + host_agent"
where
  "unified_add_agent agent_address fetched self =
     (if agent_address = [] then Inl (HTTPException 400 ''Missing address field'')
      else add_agent agent_address fetched self)"

text \<open>
  A directory mutation, and the registry it leaves behind. A call that raises leaves the
  registry as it was at the raise.
\<close>

datatype directory_op =
    Construct "string list"
  | RegisterAgentCards "string \<Rightarrow> error + agent_card"
  | RegisterAgentCard agent_card
  | RemoveAgentCard string
  | AddAgent string "error + agent_card"
  | UnifiedAddAgent string "error + agent_card"
  | RemoveAgent string

fun apply_op :: "host_agent \<Rightarrow> directory_op \<Rightarrow> host_agent" where
  "apply_op self (Construct addrs) = HostAgent_init addrs self"
| "apply_op self (RegisterAgentCards resolver) = snd (register_agent_cards resolver self)"
| "apply_op self (RegisterAgentCard acard) = register_agent_card acard self"
| "apply_op self (RemoveAgentCard agent_name) =
     (case remove_agent_card agent_name self of Inl e \<Rightarrow> self | Inr self' \<Rightarrow> self')"
| "apply_op self (AddAgent address fetched) =
     (case add_agent address fetched self of Inl e \<Rightarrow> self | Inr self' \<Rightarrow> self')"
| "apply_op self (UnifiedAddAgent address fetched) =
     (case unified_add_agent address fetched self of Inl e \<Rightarrow> self | Inr self' \<Rightarrow> self')"
| "apply_op self (RemoveAgent agent_name) =
     (case remove_agent agent_name self of Inl e \<Rightarrow> self | Inr self' \<Rightarrow> self')"

definition run_ops :: "host_agent \<Rightarrow> directory_op list \<Rightarrow> host_agent" where
  "run_ops self ops = foldl apply_op self ops"

text \<open>The three name sets the directory invariant compares.\<close>

definition connection_names :: "host_agent \<Rightarrow> string set" where
  "connection_names self = set (map fst (remote_agent_connections self))"

definition card_names :: "host_agent \<Rightarrow> string set" where
  "card_names self = set (map fst (cards self))"

definition names_with_address :: "host_agent \<Rightarrow> string set" where
  "names_with_address self =
     set (map fst (filter (\<lambda>(k, acard). card_url acard \<in> set (remote_agent_addresses self))
                     (cards self)))"

text \<open>
  A card may be stored in a registry without breaking the link between cards and
  addresses when its \<^verbatim>\<open>url\<close> is in the address list and no card registered under
  another name has the same \<^verbatim>\<open>url\<close>.
\<close>

definition stored_ok :: "agent_card \<Rightarrow> host_agent \<Rightarrow> bool" where
  "stored_ok acard self \<longleftrightarrow>
     card_url acard \<in> set (remote_agent_addresses self) \<and>
     list_all (\<lambda>kc. card_url (snd kc) \<noteq> card_url acard \<or> fst kc = card_name acard)
       (cards self)"

text \<open>The same for every card that \<^verbatim>\<open>register_agent_cards\<close> fetches, in the order of its loop.\<close>

fun fetches_ok :: "(string \<Rightarrow> error + agent_card) \<Rightarrow> string list \<Rightarrow> host_agent \<Rightarrow> bool" where
  "fetches_ok resolver [] self = True"
| "fetches_ok resolver (address # rest) self =
     (case resolver address of
        Inl e \<Rightarrow> True
      | Inr acard \<Rightarrow> stored_ok acard self \<and> fetches_ok resolver rest (store_card acard self))"

text \<open>
  A mutation is regular in a registry when every card it stores may be stored at the
  moment it is stored: for the management surfaces' add, after the added address has
  been appended (so a fetched card whose \<^verbatim>\<open>url\<close> is the added address qualifies). A
  rejected add, a failed fetch, the constructor's appending of addresses and removals
  store nothing.
\<close>

fun regular_op :: "host_agent \<Rightarrow> directory_op \<Rightarrow> bool" where
  "regular_op self (Construct addrs) = True"
| "regular_op self (RegisterAgentCards resolver) =
     fetches_ok resolver (remote_agent_addresses self) self"
| "regular_op self (RegisterAgentCard acard) = stored_ok acard self"
| "regular_op self (AddAgent address (Inl e)) = True"
| "regular_op self (AddAgent address (Inr acard)) =
     (if address \<in> set (remote_agent_addresses self) then True
      else stored_ok acard
             (self\<lparr>remote_agent_addresses := remote_agent_addresses self @ [address]\<rparr>))"
| "regular_op self (UnifiedAddAgent address (Inl e)) = True"
| "regular_op self (UnifiedAddAgent address (Inr acard)) =
     (if address = [] \<or> address \<in> set (remote_agent_addresses self) then True
      else stored_ok acard
             (self\<lparr>remote_agent_addresses := remote_agent_addresses self @ [address]\<rparr>))"
| "regular_op self (RemoveAgent agent_name) = True"
| "regular_op self (RemoveAgentCard agent_name) = True"

fun regular_run :: "host_agent \<Rightarrow> directory_op list \<Rightarrow> bool" where
  "regular_run self [] = True"
| "regular_run self (op # ops) = (regular_op self op \<and> regular_run (apply_op self op) ops)"

section \<open>History trimming (HostAgent.before\_model\_callback)\<close>

definition HISTORY_LENGTH :: nat where
  "HISTORY_LENGTH = 3"

text \<open>
  The callback replaces \<^verbatim>\<open>llm_request.contents\<close> and returns \<^verbatim>\<open>None\<close>; the model
  returns the contents the decision collaborator is then invoked with.
\<close>

definition before_model_callback :: "'a list \<Rightarrow> 'a list" where
  "before_model_callback contents =
     (let n = length contents in
      if n = 0 then contents
      else if n mod 2 = 0 then contents
      else
        (let num_turns = (n - 1) div 2;
             keep_turns = min HISTORY_LENGTH num_turns;
             start_idx = (num_turns - keep_turns) * 2
         in if start_idx > 0 then drop start_idx contents else contents))"

section \<open>Delegation router (HostAgent.send\_message)\<close>

text \<open>
  The session state the router reads and writes (\<^verbatim>\<open>tool_context.state\<close>), one optional
  field per key, and the tool context with its two action flags and the artifacts saved
  through it (name, MIME type, decoded bytes).
\<close>

record conversation_state =
  st_agent :: "string option"
  st_task_id :: "string option"
  st_context_id :: "string option"
  st_message_id :: "string option"
  st_session_active :: "bool option"

record tool_context =
  ctx_state :: conversation_state
  skip_summarization :: bool
  escalate :: bool
  saved_artifacts :: "(string option \<times> string option \<times> string) list"

text \<open>
  What the run supplies from outside: the two \<^verbatim>\<open>uuid.uuid4()\<close> values and
  \<^verbatim>\<open>base64.b64decode\<close> (\<open>None\<close> where it raises).
\<close>

record runtime =
  uuid_message_id :: string
  uuid_request_id :: string
  b64decode :: "string \<Rightarrow> string option"

datatype converted = ConvText string | ConvData json | ConvDataPart json

fun json_of_name :: "string option \<Rightarrow> json" where
  "json_of_name None = JNull"
| "json_of_name (Some s) = JStr s"

text \<open>
  \<^verbatim>\<open>convert_part\<close>. A file given by URI has no \<^verbatim>\<open>bytes\<close> attribute, so reading it
  raises; \<^verbatim>\<open>save_artifact\<close> is taken not to fail.
\<close>

fun convert_part ::
  "runtime \<Rightarrow> part \<Rightarrow> tool_context \<Rightarrow> (error + converted) \<times> tool_context"
where
  "convert_part rt (TextPart text) tc = (Inr (ConvText text), tc)"
| "convert_part rt (DataPart d) tc = (Inr (ConvData d), tc)"
| "convert_part rt (FilePart (FileWithUri file_id mime uri)) tc =
     (Inl (AttributeError ''bytes''), tc)"
| "convert_part rt (FilePart (FileWithBytes file_id mime encoded)) tc =
     (case b64decode rt encoded of
        None \<Rightarrow> (Inl Base64Error, tc)
      | Some file_bytes \<Rightarrow>
          (Inr (ConvDataPart (JDict [(''artifact-file-id'', json_of_name file_id)])),
           tc\<lparr>saved_artifacts := saved_artifacts tc @ [(file_id, mime, file_bytes)],
              skip_summarization := True,
              escalate := True\<rparr>))"

fun convert_parts ::
  "runtime \<Rightarrow> part list \<Rightarrow> tool_context \<Rightarrow> (error + converted list) \<times> tool_context"
where
  "convert_parts rt [] tc = (Inr [], tc)"
| "convert_parts rt (p # ps) tc =
     (case convert_part rt p tc of
        (Inl e, tc') \<Rightarrow> (Inl e, tc')
      | (Inr v, tc') \<Rightarrow>
          (case convert_parts rt ps tc' of
             (Inl e, tc'') \<Rightarrow> (Inl e, tc'')
           | (Inr vs, tc'') \<Rightarrow> (Inr (v # vs), tc'')))"

fun convert_artifacts ::
  "runtime \<Rightarrow> artifact list \<Rightarrow> tool_context \<Rightarrow> (error + converted list) \<times> tool_context"
where
  "convert_artifacts rt [] tc = (Inr [], tc)"
| "convert_artifacts rt (a # as) tc =
     (case convert_parts rt (art_parts a) tc of
        (Inl e, tc') \<Rightarrow> (Inl e, tc')
      | (Inr vs, tc') \<Rightarrow>
          (case convert_artifacts rt as tc' of
             (Inl e, tc'') \<Rightarrow> (Inl e, tc'')
           | (Inr ws, tc'') \<Rightarrow> (Inr (vs @ ws), tc'')))"

text \<open>The tail of \<^verbatim>\<open>send_message\<close>: status message first, then every artifact.\<close>

definition collect_response ::
  "runtime \<Rightarrow> task \<Rightarrow> tool_context \<Rightarrow> (error + converted list) \<times> tool_context"
where
  "collect_response rt t tc =
     (case (case task_status_message t of
              None \<Rightarrow> (Inr [], tc)
            | Some m \<Rightarrow> convert_parts rt (msg_parts m) tc) of
        (Inl e, tc') \<Rightarrow> (Inl e, tc')
      | (Inr response, tc') \<Rightarrow>
          (case convert_artifacts rt (task_artifacts t) tc' of
             (Inl e, tc'') \<Rightarrow> (Inl e, tc'')
           | (Inr further, tc'') \<Rightarrow> (Inr (response @ further), tc'')))"

text \<open>
  The task branch of \<^verbatim>\<open>send_message\<close>: the three state writes, then the policy on the
  task's state.
\<close>

definition task_policy ::
  "runtime \<Rightarrow> string \<Rightarrow> task \<Rightarrow> tool_context \<Rightarrow> (error + converted list) \<times> tool_context"
where
  "task_policy rt agent_name t tc =
     (let st1 = (ctx_state tc)\<lparr>st_session_active :=
                   Some (task_status_state t \<notin> set [Completed, Canceled, Failed, Unknown])\<rparr>;
          st2 = (if task_contextId t \<noteq> [] then st1\<lparr>st_context_id := Some (task_contextId t)\<rparr>
                 else st1);
          st3 = st2\<lparr>st_task_id := Some (task_id t)\<rparr>;
          tc1 = tc\<lparr>ctx_state := st3\<rparr>
      in if task_status_state t = InputRequired then
           collect_response rt t (tc1\<lparr>skip_summarization := True, escalate := True\<rparr>)
         else if task_status_state t = Canceled then
           (Inl (ValueError (''Agent '' @ agent_name @ '' task '' @ task_id t @ '' is cancelled'')),
            tc1)
         else if task_status_state t = Failed then
           (Inl (ValueError (''Agent '' @ agent_name @ '' task '' @ task_id t @ '' failed'')), tc1)
         else collect_response rt t tc1)"

text \<open>
  The request \<^verbatim>\<open>send_message\<close> builds from the session state (after the agent's name
  has been written to it): a stored message id is reused unless it is empty or missing.
\<close>

definition build_request :: "runtime \<Rightarrow> string \<Rightarrow> conversation_state \<Rightarrow> message_send_params" where
  "build_request rt message_text st =
     (let taskId = st_task_id st;
          contextId = st_context_id st;
          messageId = (case st_message_id st of
                         None \<Rightarrow> uuid_message_id rt
                       | Some m \<Rightarrow> if m = [] then uuid_message_id rt else m)
      in \<lparr>params_id = uuid_request_id rt,
          params_message =
            \<lparr>msg_role = ''user'', msg_parts = [TextPart message_text],
             msg_messageId = messageId, msg_contextId = contextId, msg_taskId = taskId\<rparr>,
          params_acceptedOutputModes = [''text'', ''text/plain'', ''image/png'']\<rparr>)"

text \<open>
  The body of the \<^verbatim>\<open>try\<close> block. The third component is the call made on the remote
  connection, if the body got that far. A response that is neither a message nor a task
  (an error object, \<^verbatim>\<open>None\<close>) has no \<^verbatim>\<open>id\<close>. A connection object is always
  truthy, so the check \<^verbatim>\<open>if not client\<close> never raises.
\<close>

definition send_message_try ::
  "runtime \<Rightarrow> host_agent \<Rightarrow> string \<Rightarrow> string \<Rightarrow> tool_context \<Rightarrow>
   (error + converted list) \<times> tool_context \<times> send_outcome option"
where
  "send_message_try rt self agent_name message_text tc =
     (case map_of (remote_agent_connections self) agent_name of
        None \<Rightarrow> (Inl (ValueError (''Agent '' @ agent_name @ '' not found'')), tc, None)
      | Some client \<Rightarrow>
          (let st = (ctx_state tc)\<lparr>st_agent := Some agent_name\<rparr>;
               tc1 = tc\<lparr>ctx_state := st\<rparr>;
               request = build_request rt message_text st;
               sent = RemoteAgentConnections_send_message client request (task_callback self) False
           in case outcome sent of
                Inl e \<Rightarrow> (Inl e, tc1, Some sent)
              | Inr (ResultMessage m) \<Rightarrow>
                  (case convert_parts rt (msg_parts m) tc1 of
                     (r, tc2) \<Rightarrow> (r, tc2, Some sent))
              | Inr (ResultError err) \<Rightarrow> (Inl (AttributeError ''id''), tc1, Some sent)
              | Inr ResultNone \<Rightarrow> (Inl (AttributeError ''id''), tc1, Some sent)
              | Inr (ResultTask t) \<Rightarrow>
                  (case task_policy rt agent_name t tc1 of
                     (r, tc2) \<Rightarrow> (r, tc2, Some sent))))"

text \<open>
  \<^verbatim>\<open>send_message\<close> with its \<^verbatim>\<open>except Exception\<close>: an exception of the body is not raised
  but returned, as the text of its traceback (\<open>ErrorText\<close>).
\<close>

datatype tool_result = Contents "converted list" | ErrorText error

definition HostAgent_send_message ::
  "runtime \<Rightarrow> host_agent \<Rightarrow> string \<Rightarrow> string \<Rightarrow> tool_context \<Rightarrow>
   tool_result \<times> tool_context \<times> send_outcome option"
where
  "HostAgent_send_message rt self agent_name message_text tc =
     (case send_message_try rt self agent_name message_text tc of
        (Inl e, tc', sent) \<Rightarrow> (ErrorText e, tc', sent)
      | (Inr response, tc', sent) \<Rightarrow> (Contents response, tc', sent))"

section \<open>Orchestrator streams (RouterAgent.stream, AgentEvolution.stream)\<close>

text \<open>
  An event of the decision collaborator's runner: whether it is a final response, and its
  content (absent, or with a list of parts that may itself be absent). A part has an
  optional text and an optional function response, given by its \<^verbatim>\<open>model_dump()\<close>.
\<close>

record adk_part =
  part_text :: "string option"
  part_function_response :: "json option"

datatype adk_content = Content "adk_part list option"

record adk_event =
  event_is_final_response :: bool
  event_content :: "adk_content option"

text \<open>
  How a run of the runner ends after its events: it finishes, it raises, or no further
  event ever arrives.
\<close>

datatype run_end = RunFinished | RunRaises error | RunStalls

text \<open>
  One element of the orchestrator's stream: \<^verbatim>\<open>{'is_task_complete': False, 'updates': u}\<close>
  or \<^verbatim>\<open>{'is_task_complete': True, 'content': c}\<close>, where \<open>c\<close> is a string or a dict.
  Of a dict only the entry \<^verbatim>\<open>'response'\<close> is read: it is missing, \<^verbatim>\<open>None\<close>, or a dict
  whose entry \<^verbatim>\<open>'result'\<close> is missing or present.
\<close>

datatype response_field = ResponseAbsent | ResponseNone | ResponseDict "json option"

datatype item_content = TextContent string | DictContent response_field

datatype stream_item = TaskUpdates string | TaskComplete item_content

datatype stream_end = StreamDone | StreamRaised error | StreamStalled

text \<open>The parts of an event; empty exactly when \<^verbatim>\<open>event.content and event.content.parts\<close> is falsy.\<close>

fun content_parts :: "adk_event \<Rightarrow> adk_part list" where
  "content_parts ev =
     (case event_content ev of
        None \<Rightarrow> []
      | Some (Content None) \<Rightarrow> []
      | Some (Content (Some ps)) \<Rightarrow> ps)"

fun truthy_text :: "adk_part \<Rightarrow> bool" where
  "truthy_text p = (case part_text p of None \<Rightarrow> False | Some s \<Rightarrow> s \<noteq> [])"

fun has_function_response :: "adk_part \<Rightarrow> bool" where
  "has_function_response p = (part_function_response p \<noteq> None)"

fun join_lines :: "string list \<Rightarrow> string" where
  "join_lines [] = []"
| "join_lines [s] = s"
| "join_lines (s # t # rest) = s @ [CHR 0x0A] @ join_lines (t # rest)"

definition joined_text :: "adk_part list \<Rightarrow> string" where
  "joined_text ps = join_lines (map (\<lambda>p. the (part_text p)) (filter truthy_text ps))"

text \<open>
  The \<^verbatim>\<open>'response'\<close> entry of a function response's dump: a dump is a dict, and its entry
  is \<^verbatim>\<open>None\<close> or a dict.
\<close>

fun dump_response :: "json \<Rightarrow> response_field" where
  "dump_response (JDict kvs) =
     (case map_of kvs ''response'' of
        None \<Rightarrow> ResponseAbsent
      | Some (JDict r) \<Rightarrow> ResponseDict (map_of r ''result'')
      | Some other \<Rightarrow> ResponseNone)"
| "dump_response other = ResponseAbsent"

text \<open>
  The final-response branch of \<^verbatim>\<open>RouterAgent.stream\<close>. Its \<^verbatim>\<open>next(...)\<close> takes the
  first part whatever it holds, so a first part without a function response raises.
\<close>

definition RouterAgent_response :: "adk_event \<Rightarrow> error + item_content" where
  "RouterAgent_response ev =
     (case content_parts ev of
        [] \<Rightarrow> Inr (TextContent [])
      | p # rest \<Rightarrow>
          if truthy_text p then Inr (TextContent (joined_text (p # rest)))
          else if list_ex has_function_response (p # rest) then
            (case part_function_response p of
               None \<Rightarrow> Inl (AttributeError ''model_dump'')
             | Some d \<Rightarrow> Inr (DictContent (dump_response d)))
          else Inr (TextContent []))"

definition RouterAgent_processing_message :: string where
  "RouterAgent_processing_message = ''Processing the reimbursement request...''"

fun end_of_run :: "run_end \<Rightarrow> stream_end" where
  "end_of_run RunFinished = StreamDone"
| "end_of_run (RunRaises e) = StreamRaised e"
| "end_of_run RunStalls = StreamStalled"

text \<open>
  \<^verbatim>\<open>RouterAgent.stream\<close>, from the events of the run on: the items it yields and how it
  ends. There is no \<^verbatim>\<open>try\<close> and no timeout around the loop. The session service
  (\<^verbatim>\<open>get_session\<close>, \<^verbatim>\<open>create_session\<close>) is taken not to fail.
\<close>

fun RouterAgent_stream :: "adk_event list \<Rightarrow> run_end \<Rightarrow> stream_item list \<times> stream_end" where
  "RouterAgent_stream [] ending = ([], end_of_run ending)"
| "RouterAgent_stream (ev # evs) ending =
     (if event_is_final_response ev then
        (case RouterAgent_response ev of
           Inl e \<Rightarrow> ([], StreamRaised e)
         | Inr response \<Rightarrow>
             (case RouterAgent_stream evs ending of
                (items, fin) \<Rightarrow> (TaskComplete response # items, fin)))
      else
        (case RouterAgent_stream evs ending of
           (items, fin) \<Rightarrow> (TaskUpdates RouterAgent_processing_message # items, fin)))"

text \<open>
  \<^verbatim>\<open>AgentEvolution.stream\<close>, from the events of the run on (its session service is
  taken not to fail either). \<open>env\<close> is the environment variable
  \<^verbatim>\<open>PROCESSING_MESSAGE\<close>. The response is \<^verbatim>\<open>None\<close> unless a text or a function
  response is found; an item is complete only for a truthy response.
\<close>

definition STREAM_TIMEOUT :: nat where
  "STREAM_TIMEOUT = 300"

fun json_truthy :: "json \<Rightarrow> bool" where
  "json_truthy JNull = False"
| "json_truthy (JStr s) = (s \<noteq> [])"
| "json_truthy (JList xs) = (xs \<noteq> [])"
| "json_truthy (JDict kvs) = (kvs \<noteq> [])"

definition AgentEvolution_processing_message :: "string option \<Rightarrow> string" where
  "AgentEvolution_processing_message env =
     (case env of
        None \<Rightarrow> ''Processing...''
      | Some s \<Rightarrow> if s = [] then ''Processing...'' else s)"

definition AgentEvolution_response :: "adk_event \<Rightarrow> item_content option" where
  "AgentEvolution_response ev =
     (let ps = content_parts ev in
      if list_ex truthy_text ps then Some (TextContent (joined_text ps))
      else
        (case List.map_filter part_function_response ps of
           [] \<Rightarrow> None
         | d # ds \<Rightarrow> if json_truthy d then Some (DictContent (dump_response d)) else None))"

fun AgentEvolution_item :: "string option \<Rightarrow> adk_event \<Rightarrow> stream_item" where
  "AgentEvolution_item env ev =
     (if event_is_final_response ev then
        (case AgentEvolution_response ev of
           Some response \<Rightarrow> TaskComplete response
         | None \<Rightarrow> TaskUpdates (AgentEvolution_processing_message env))
      else TaskUpdates (AgentEvolution_processing_message env))"

text \<open>
  The two \<^verbatim>\<open>except\<close> clauses: a timeout (the deadline of \<^verbatim>\<open>asyncio.timeout\<close> passing
  while the next event is awaited, or a \<^verbatim>\<open>TimeoutError\<close> from the run) and any other
  exception each become one last item, and the stream ends normally.
\<close>

fun AgentEvolution_end :: "run_end \<Rightarrow> stream_item list" where
  "AgentEvolution_end RunFinished = []"
| "AgentEvolution_end RunStalls =
     [TaskComplete (TextContent ''Agent timed out while processing request'')]"
| "AgentEvolution_end (RunRaises TimeoutError) =
     [TaskComplete (TextContent ''Agent timed out while processing request'')]"
| "AgentEvolution_end (RunRaises e) =
     [TaskComplete (TextContent (''Agent error: '' @ error_str e))]"

definition AgentEvolution_stream ::
  "string option \<Rightarrow> adk_event list \<Rightarrow> run_end \<Rightarrow> stream_item list \<times> stream_end"
where
  "AgentEvolution_stream env evs ending =
     (map (AgentEvolution_item env) evs @ AgentEvolution_end ending, StreamDone)"

section \<open>Execution adapter (MyAgentExecutor.execute)\<close>

text \<open>
  The messages the adapter builds (\<^verbatim>\<open>new_agent_text_message\<close>,
  \<^verbatim>\<open>new_agent_parts_message\<close>: content, context id, task id) and the calls it makes on the
  event queue and the task updater, in order.
\<close>

datatype agent_message =
    AgentTextMessage string string string
  | AgentPartsMessage "part list" string string

datatype published =
    EnqueueTask task
  | UpdateStatus task_state agent_message bool
  | AddArtifact "part list" string
  | Complete

record request_context =
  rc_user_input :: string
  rc_current_task :: "task option"
  rc_message :: message

text \<open>Python's iteration over a value: a list's elements, a dict's keys, a string's characters.\<close>

fun iterate_json :: "json \<Rightarrow> error + json list" where
  "iterate_json (JList xs) = Inr xs"
| "iterate_json (JDict kvs) = Inr (map (\<lambda>kv. JStr (fst kv)) kvs)"
| "iterate_json (JStr s) = Inr (map (\<lambda>c. JStr [c]) s)"
| "iterate_json JNull = Inl (TypeError ''NoneType object is not iterable'')"

text \<open>
  The inner loop over the function results: one final input-required update per result.
  \<^verbatim>\<open>DataPart(data=...)\<close> accepts a dict only; on any other result its validation raises,
  after the updates already published.
\<close>

fun publish_results :: "task \<Rightarrow> json list \<Rightarrow> published list \<times> stream_end" where
  "publish_results t [] = ([], StreamDone)"
| "publish_results t (JDict kvs # rs) =
     (case publish_results t rs of
        (pubs, fin) \<Rightarrow>
          (UpdateStatus InputRequired
             (AgentPartsMessage [DataPart (JDict kvs)] (task_contextId t) (task_id t)) True # pubs,
           fin))"
| "publish_results t (other # rs) = ([], StreamRaised (ValidationError ''data''))"

text \<open>
  The loop over the stream's items. Each of the three \<^verbatim>\<open>break\<close>s ends the turn with the
  rest of the stream unread; a stream that raises or stalls before that does so in
  \<^verbatim>\<open>execute\<close>.
\<close>

fun process_items ::
  "task \<Rightarrow> stream_item list \<Rightarrow> stream_end \<Rightarrow> published list \<times> stream_end"
where
  "process_items t [] fin = ([], fin)"
| "process_items t (TaskUpdates u # items) fin =
     (case process_items t items fin of
        (pubs, fin') \<Rightarrow>
          (UpdateStatus Working (AgentTextMessage u (task_contextId t) (task_id t)) False # pubs,
           fin'))"
| "process_items t (TaskComplete (DictContent ResponseNone) # items) fin =
     ([], StreamRaised (TypeError ''argument of type NoneType is not iterable''))"
| "process_items t (TaskComplete (DictContent (ResponseDict (Some result))) # items) fin =
     (case iterate_json result of
        Inl e \<Rightarrow> ([], StreamRaised e)
      | Inr function_results \<Rightarrow> publish_results t function_results)"
| "process_items t (TaskComplete (DictContent other) # items) fin =
     ([UpdateStatus Failed
         (AgentTextMessage ''Reaching an unexpected state'' (task_contextId t) (task_id t)) True],
      StreamDone)"
| "process_items t (TaskComplete (TextContent text) # items) fin =
     ([AddArtifact [TextPart text] ''form'', Complete], StreamDone)"

text \<open>
  \<^verbatim>\<open>execute\<close>: \<open>new_task\<close> is \<^verbatim>\<open>a2a.utils.new_task\<close>, \<open>agent_stream\<close> is
  \<^verbatim>\<open>self.agent.stream\<close> (query, session id). The result is the sequence of published
  calls and how \<^verbatim>\<open>execute\<close> ends. When the request is bound to an existing task, the
  logging at the head of \<^verbatim>\<open>execute\<close> reads \<^verbatim>\<open>context.contextId\<close>, an attribute that a
  \<^verbatim>\<open>RequestContext\<close> does not have (its context id is \<^verbatim>\<open>context_id\<close>), outside any
  \<^verbatim>\<open>try\<close>: \<^verbatim>\<open>execute\<close> raises before it reads the stream. Without a current task the
  attribute is not read, and the new task is enqueued first.
\<close>

definition MyAgentExecutor_execute ::
  "(message \<Rightarrow> task) \<Rightarrow> (string \<Rightarrow> string \<Rightarrow> stream_item list \<times> stream_end) \<Rightarrow>
   request_context \<Rightarrow> published list \<times> stream_end"
where
  "MyAgentExecutor_execute new_task agent_stream context =
     (let query = rc_user_input context in
      case rc_current_task context of
        Some current \<Rightarrow> ([], StreamRaised (AttributeError ''contextId''))
      | None \<Rightarrow>
          (let t = new_task (rc_message context) in
           case agent_stream query (task_contextId t) of
             (items, fin) \<Rightarrow>
               (case process_items t items fin of
                  (pubs, fin') \<Rightarrow> (EnqueueTask t # pubs, fin'))))"

section \<open>Invariants of the directory\<close>

text \<open>
  Every connection is the one built from the card stored under the same name, in the
  same order.
\<close>

definition mirrored :: "host_agent \<Rightarrow> bool" where
  "mirrored self \<longleftrightarrow>
     remote_agent_connections self =
       map (\<lambda>(k, c). (k, RemoteAgentConnections_init (httpx_client self) c)) (cards self)"

text \<open>
  No two cards share a name or a \<^verbatim>\<open>url\<close>, and the \<^verbatim>\<open>url\<close> of every card is in the
  address list.
\<close>

definition addresses_cover :: "host_agent \<Rightarrow> bool" where
  "addresses_cover self \<longleftrightarrow>
     distinct (map fst (cards self)) \<and>
     distinct (map (\<lambda>kc. card_url (snd kc)) (cards self)) \<and>
     (\<lambda>kc. card_url (snd kc)) ` set (cards self) \<subseteq> set (remote_agent_addresses self)"

definition directory_ok :: "host_agent \<Rightarrow> bool" where
  "directory_ok self \<longleftrightarrow> mirrored self \<and> addresses_cover self"

section \<open>Scenarios\<close>

text \<open>The card of the test suite (tests/conftest.py): it declares streaming.\<close>

definition mock_agent_card :: agent_card where
  "mock_agent_card =
     \<lparr>card_name = ''MockAgent'', card_description = ''A mock agent for testing purposes.'',
      card_url = ''http://mock-agent.test'', card_streaming = Some True\<rparr>"

text \<open>A simulated remote: it answers the unary call with \<open>reply\<close> and streams \<open>events\<close>.\<close>

definition simulated_remote :: "unary_response \<Rightarrow> stream_response list \<Rightarrow> a2a_client" where
  "simulated_remote reply events =
     \<lparr>client_send_message = (\<lambda>request. Inr reply),
      client_send_message_streaming = (\<lambda>request. (events, None))\<rparr>"

definition sample_task :: "task_state \<Rightarrow> task" where
  "sample_task st =
     \<lparr>task_id = ''task-1'', task_contextId = ''ctx-1'', task_status_state = st,
      task_status_message = None, task_artifacts = []\<rparr>"

text \<open>Two status updates of one task, the second one final.\<close>

definition sample_events :: "stream_response list" where
  "sample_events =
     [StreamTaskEvent (TaskStatusUpdateEvent ''task-1'' Working False),
      StreamTaskEvent (TaskStatusUpdateEvent ''task-1'' Completed True)]"

text \<open>A task observer that records the state of the update in a snapshot of the task.\<close>

fun sample_callback :: task_update_callback where
  "sample_callback (EventTask t) c = t"
| "sample_callback (TaskStatusUpdateEvent tid st final) c = (sample_task st)\<lparr>task_id := tid\<rparr>"
| "sample_callback (TaskArtifactUpdateEvent tid a) c =
     (sample_task Working)\<lparr>task_id := tid, task_artifacts := [a]\<rparr>"

definition sample_connection :: "unary_response \<Rightarrow> remote_agent_connections" where
  "sample_connection reply =
     RemoteAgentConnections_init (\<lambda>c. simulated_remote reply sample_events) mock_agent_card"

text \<open>A host agent whose only registered agent is the mock agent, answering with \<open>reply\<close>.\<close>

definition sample_host :: "unary_response \<Rightarrow> host_agent" where
  "sample_host reply =
     register_agent_card mock_agent_card
       (empty_registry (\<lambda>c. simulated_remote reply sample_events) None)"

definition sample_runtime :: runtime where
  "sample_runtime =
     \<lparr>uuid_message_id = ''message-1'', uuid_request_id = ''request-1'',
      b64decode = (\<lambda>encoded. None)\<rparr>"

definition new_context :: tool_context where
  "new_context =
     \<lparr>ctx_state = \<lparr>st_agent = None, st_task_id = None, st_context_id = None,
                   st_message_id = None, st_session_active = None\<rparr>,
      skip_summarization = False, escalate = False, saved_artifacts = []\<rparr>"

definition sample_request :: message_send_params where
  "sample_request = build_request sample_runtime ''What is the weather in Paris?''
                      (ctx_state new_context)"

text \<open>A first-turn request (no current task), and a request bound to an existing task.\<close>

definition first_turn_request_context :: request_context where
  "first_turn_request_context =
     \<lparr>rc_user_input = ''What is the weather in Paris?'',
      rc_current_task = None,
      rc_message = params_message sample_request\<rparr>"

definition sample_request_context :: request_context where
  "sample_request_context =
     \<lparr>rc_user_input = ''What is the weather in Paris?'',
      rc_current_task = Some (sample_task Submitted),
      rc_message = params_message sample_request\<rparr>"

text \<open>The only reachable address serves the mock agent's card.\<close>

definition sample_resolver :: "string \<Rightarrow> error + agent_card" where
  "sample_resolver address =
     (if address = ''http://mock-agent.test'' then Inr mock_agent_card
      else Inl (OtherError ''unreachable''))"

section \<open>The directory: names in the three collections\<close>

lemma update_map_values:
  "AList.update k (f v) (map (\<lambda>(a, b). (a, f b)) al) = map (\<lambda>(a, b). (a, f b)) (AList.update k v al)"
  by (induction al) auto

lemma delete_map_values:
  "AList.delete k (map (\<lambda>(a, b). (a, f b)) al) = map (\<lambda>(a, b). (a, f b)) (AList.delete k al)"
  by (induction al) auto

lemma keys_map_values: "map fst (map (\<lambda>(a, b). (a, f b)) al) = map fst al"
  by (induction al) auto

lemma mirrored_names: "mirrored self \<Longrightarrow> connection_names self = card_names self"
  unfolding mirrored_def connection_names_def card_names_def
  by (metis keys_map_values)

lemma mirrored_empty: "mirrored (empty_registry client cb)"
  by (simp add: mirrored_def empty_registry_def)

lemma refresh_agents_fields:
  "remote_agent_connections (refresh_agents s) = remote_agent_connections s"
  "cards (refresh_agents s) = cards s"
  "remote_agent_addresses (refresh_agents s) = remote_agent_addresses s"
  "httpx_client (refresh_agents s) = httpx_client s"
  by (simp_all add: refresh_agents_def)

lemma mirrored_addresses_update:
  "mirrored (self\<lparr>remote_agent_addresses := as\<rparr>) = mirrored self"
  by (simp add: mirrored_def)

lemma mirrored_refresh: "mirrored (refresh_agents self) = mirrored self"
  by (simp add: mirrored_def refresh_agents_def)

lemma mirrored_store: "mirrored self \<Longrightarrow> mirrored (store_card c self)"
  by (simp add: mirrored_def store_card_def update_map_values)

lemma mirrored_init: "mirrored self \<Longrightarrow> mirrored (HostAgent_init addrs self)"
  by (simp add: mirrored_def HostAgent_init_def)

lemma mirrored_register_addresses:
  "mirrored self \<Longrightarrow> mirrored (snd (register_addresses resolver as self))"
  by (induction as arbitrary: self) (auto simp: mirrored_store split: sum.splits)

lemma mirrored_register_agent_cards:
  "mirrored self \<Longrightarrow> mirrored (snd (register_agent_cards resolver self))"
  using mirrored_register_addresses [of self resolver "remote_agent_addresses self"]
  by (auto simp: register_agent_cards_def mirrored_refresh split: prod.splits option.splits)

lemma mirrored_remove:
  "mirrored self \<Longrightarrow> remove_agent_card n self = Inr self' \<Longrightarrow> mirrored self'"
  by (auto simp: remove_agent_card_def Let_def mirrored_def delete_map_values
      refresh_agents_fields split: option.splits if_splits)

lemma mirrored_apply_op: "mirrored self \<Longrightarrow> mirrored (apply_op self op)"
  by (cases op)
     (auto simp: mirrored_init mirrored_register_agent_cards register_agent_card_def
        mirrored_refresh mirrored_store add_agent_def unified_add_agent_def remove_agent_def
        mirrored_addresses_update
        dest: mirrored_remove split: sum.splits if_splits)


lemma cover_names: "addresses_cover self \<Longrightarrow> names_with_address self = card_names self"
proof -
  assume "addresses_cover self"
  then have "\<forall>kc \<in> set (cards self). card_url (snd kc) \<in> set (remote_agent_addresses self)"
    by (auto simp: addresses_cover_def)
  then have "filter (\<lambda>(k, c). card_url c \<in> set (remote_agent_addresses self)) (cards self)
             = cards self"
    by (intro filter_True) auto
  then show ?thesis
    by (simp add: names_with_address_def card_names_def)
qed

lemma cover_empty: "addresses_cover (empty_registry client cb)"
  by (simp add: addresses_cover_def empty_registry_def)

lemma cover_refresh: "addresses_cover (refresh_agents self) = addresses_cover self"
  by (simp add: addresses_cover_def refresh_agents_fields)

lemma add_addresses_mono: "set known \<subseteq> set (add_addresses addrs known)"
proof (induction addrs arbitrary: known)
  case Nil
  show ?case by simp
next
  case (Cons a addrs)
  have "set known \<subseteq> set (if a \<in> set known then known else known @ [a])" by auto
  also have "\<dots> \<subseteq> set (add_addresses addrs (if a \<in> set known then known else known @ [a]))"
    by (rule Cons.IH)
  finally show ?case by simp
qed

lemma cover_init: "addresses_cover self \<Longrightarrow> addresses_cover (HostAgent_init addrs self)"
  using add_addresses_mono [of "remote_agent_addresses self" addrs]
  by (auto simp: addresses_cover_def HostAgent_init_def)

lemma cover_append:
  "addresses_cover self \<Longrightarrow>
   addresses_cover (self\<lparr>remote_agent_addresses := remote_agent_addresses self @ [address]\<rparr>)"
  by (auto simp: addresses_cover_def)

lemma set_update_subset: "set (AList.update k v al) \<subseteq> insert (k, v) (set al)"
  by (induction al) auto

lemma distinct_map_update:
  "distinct (map fst al) \<Longrightarrow> distinct (map g al) \<Longrightarrow>
   \<forall>p \<in> set al. g p = g (k, v) \<longrightarrow> fst p = k \<Longrightarrow>
   distinct (map g (AList.update k v al))"
proof (induction al)
  case Nil
  show ?case by simp
next
  case (Cons p ps)
  show ?case
  proof (cases "fst p = k")
    case True
    have "g (k, v) \<notin> g ` set ps"
    proof
      assume "g (k, v) \<in> g ` set ps"
      then obtain q where q: "q \<in> set ps" "g q = g (k, v)" by auto
      with Cons.prems(3) have "fst q = k" by simp
      with q(1) True Cons.prems(1) show False by (auto simp: image_iff)
    qed
    with True Cons.prems(2) show ?thesis by simp
  next
    case False
    have "g p \<notin> g ` set (AList.update k v ps)"
    proof
      assume "g p \<in> g ` set (AList.update k v ps)"
      then obtain q where q: "q \<in> set (AList.update k v ps)" "g p = g q" by auto
      from q(1) set_update_subset [of k v ps] have "q = (k, v) \<or> q \<in> set ps" by auto
      then show False
      proof
        assume "q = (k, v)"
        with q(2) Cons.prems(3) have "fst p = k" by simp
        with False show False by simp
      next
        assume "q \<in> set ps"
        with q(2) Cons.prems(2) show False by auto
      qed
    qed
    moreover from Cons have "distinct (map g (AList.update k v ps))" by simp
    ultimately show ?thesis using False by simp
  qed
qed

lemma cover_store:
  assumes "addresses_cover self" and "stored_ok c self"
  shows "addresses_cover (store_card c self)"
proof -
  let ?g = "\<lambda>kc. card_url (snd kc)"
  from assms(2) have own: "\<forall>p \<in> set (cards self). ?g p = ?g (card_name c, c) \<longrightarrow> fst p = card_name c"
    by (auto simp: stored_ok_def list_all_iff)
  from assms(1) have "distinct (map fst (cards self))" "distinct (map ?g (cards self))"
    by (simp_all add: addresses_cover_def)
  with own have d: "distinct (map ?g (AList.update (card_name c) c (cards self)))"
    by (intro distinct_map_update)
  have sub: "?g ` set (AList.update (card_name c) c (cards self))
             \<subseteq> set (remote_agent_addresses self)"
  proof
    fix u assume "u \<in> ?g ` set (AList.update (card_name c) c (cards self))"
    then obtain q where q: "q \<in> set (AList.update (card_name c) c (cards self))" "u = ?g q"
      by auto
    from q(1) set_update_subset [of "card_name c" c "cards self"]
    have "q = (card_name c, c) \<or> q \<in> set (cards self)" by auto
    then show "u \<in> set (remote_agent_addresses self)"
    proof
      assume "q = (card_name c, c)"
      with q(2) assms(2) show ?thesis by (simp add: stored_ok_def)
    next
      assume "q \<in> set (cards self)"
      with q(2) assms(1) show ?thesis by (auto simp: addresses_cover_def)
    qed
  qed
  from assms(1) d sub show ?thesis
    by (simp add: addresses_cover_def store_card_def distinct_update)
qed

lemma cover_register_addresses:
  "addresses_cover self \<Longrightarrow> fetches_ok resolver as self \<Longrightarrow>
   set as \<subseteq> set (remote_agent_addresses self) \<Longrightarrow>
   addresses_cover (snd (register_addresses resolver as self))"
proof (induction as arbitrary: self)
  case Nil
  then show ?case by simp
next
  case (Cons a as)
  show ?case
  proof (cases "resolver a")
    case (Inl e)
    with Cons.prems show ?thesis by simp
  next
    case (Inr c)
    with Cons.prems have ok: "stored_ok c self" "fetches_ok resolver as (store_card c self)"
      by simp_all
    from Cons.prems(1) ok(1) have "addresses_cover (store_card c self)" by (rule cover_store)
    moreover from Cons.prems(3)
    have "set as \<subseteq> set (remote_agent_addresses (store_card c self))"
      by (simp add: store_card_def)
    ultimately have "addresses_cover (snd (register_addresses resolver as (store_card c self)))"
      using ok(2) by (intro Cons.IH)
    with Inr show ?thesis by simp
  qed
qed

lemma cover_register_agent_cards:
  assumes "addresses_cover self"
    and "fetches_ok resolver (remote_agent_addresses self) self"
  shows "addresses_cover (snd (register_agent_cards resolver self))"
proof -
  from assms have "addresses_cover
      (snd (register_addresses resolver (remote_agent_addresses self) self))"
    by (intro cover_register_addresses) simp_all
  then show ?thesis
    by (cases "register_addresses resolver (remote_agent_addresses self) self")
       (auto simp: register_agent_cards_def cover_refresh split: option.splits)
qed

lemma cover_remove:
  assumes "mirrored self" and "addresses_cover self" and "remove_agent_card n self = Inr self'"
  shows "addresses_cover self'"
proof -
  let ?g = "\<lambda>kc. card_url (snd kc)"
  from assms(3) obtain conn where conn: "map_of (remote_agent_connections self) n = Some conn"
    by (auto simp: remove_agent_card_def split: option.splits)
  with assms(1) obtain c where c: "map_of (cards self) n = Some c" "conn_card conn = c"
    by (auto simp: mirrored_def map_of_map RemoteAgentConnections_init_def)
  then have mem: "(n, c) \<in> set (cards self)" by (auto dest: map_of_SomeD)
  from assms(2) have inj: "inj_on ?g (set (cards self))"
    by (simp add: addresses_cover_def distinct_map)
  have rest: "card_url c' \<in> set (remote_agent_addresses self) \<and> card_url c' \<noteq> card_url c"
    if "(k, c') \<in> set (AList.delete n (cards self))" for k c'
  proof -
    from that have kc: "(k, c') \<in> set (cards self)" "k \<noteq> n"
      by (auto simp: AList.delete_eq)
    have "card_url c' \<noteq> card_url c"
    proof
      assume "card_url c' = card_url c"
      with inj_onD [OF inj, of "(k, c')" "(n, c)"] kc(1) mem have "(k, c') = (n, c)" by simp
      with kc(2) show False by simp
    qed
    with kc assms(2) show ?thesis
      by (auto simp: addresses_cover_def)
  qed
  then have keep: "?g ` set (AList.delete n (cards self)) \<subseteq> set (remote_agent_addresses self)"
    and drop: "?g ` set (AList.delete n (cards self))
                 \<subseteq> set (remove1 (card_url c) (remote_agent_addresses self))"
    by (auto simp: in_set_remove1)
  from assms(2) have dk: "distinct (map fst (AList.delete n (cards self)))"
    and du: "distinct (map ?g (AList.delete n (cards self)))"
    by (simp_all add: addresses_cover_def distinct_delete AList.delete_eq distinct_map_filter)
  show ?thesis
  proof (cases "card_url c \<noteq> [] \<and> card_url c \<in> set (remote_agent_addresses self)")
    case True
    with assms(3) conn c have "self' = refresh_agents
        (self\<lparr>remote_agent_connections := AList.delete n (remote_agent_connections self),
              cards := AList.delete n (cards self),
              remote_agent_addresses := remove1 (card_url c) (remote_agent_addresses self)\<rparr>)"
      by (simp add: remove_agent_card_def Let_def)
    with drop dk du show ?thesis
      by (simp add: addresses_cover_def refresh_agents_fields)
  next
    case False
    with assms(3) conn c have "self' = refresh_agents
        (self\<lparr>remote_agent_connections := AList.delete n (remote_agent_connections self),
              cards := AList.delete n (cards self)\<rparr>)"
      by (auto simp: remove_agent_card_def Let_def)
    with keep dk du show ?thesis
      by (simp add: addresses_cover_def refresh_agents_fields)
  qed
qed

lemma cover_add:
  assumes "addresses_cover self"
    and "stored_ok c (self\<lparr>remote_agent_addresses := remote_agent_addresses self @ [address]\<rparr>)"
  shows "addresses_cover
           (register_agent_card c
              (self\<lparr>remote_agent_addresses := remote_agent_addresses self @ [address]\<rparr>))"
  using cover_store [OF cover_append [OF assms(1), of address] assms(2)]
  by (simp add: register_agent_card_def cover_refresh)

text \<open>A card fetched by the management add under its own address may always be stored.\<close>

lemma own_address_stored_ok:
  assumes "addresses_cover self" and "address \<notin> set (remote_agent_addresses self)"
    and "card_url c = address"
  shows "stored_ok c (self\<lparr>remote_agent_addresses := remote_agent_addresses self @ [address]\<rparr>)"
  using assms
  by (auto simp: stored_ok_def addresses_cover_def list_all_iff)

lemma directory_ok_apply_op:
  assumes "directory_ok self" and "regular_op self op"
  shows "directory_ok (apply_op self op)"
proof -
  from assms(1) have m: "mirrored (apply_op self op)"
    by (simp add: directory_ok_def mirrored_apply_op)
  from assms(1) have ms: "mirrored self" and cs: "addresses_cover self"
    by (simp_all add: directory_ok_def)
  have "addresses_cover (apply_op self op)"
  proof (cases op)
    case (Construct addrs)
    with cs show ?thesis by (simp add: cover_init)
  next
    case (RegisterAgentCards resolver)
    with cs assms(2) show ?thesis by (simp add: cover_register_agent_cards)
  next
    case (RegisterAgentCard c)
    with cs assms(2) show ?thesis
      by (simp add: register_agent_card_def cover_refresh cover_store)
  next
    case (RemoveAgentCard n)
    with ms cs show ?thesis by (auto dest: cover_remove split: sum.splits)
  next
    case (AddAgent address fetched)
    with cs assms(2) show ?thesis
      by (cases fetched) (auto simp: add_agent_def cover_add split: if_splits)
  next
    case (UnifiedAddAgent address fetched)
    with cs assms(2) show ?thesis
      by (cases fetched)
         (auto simp: unified_add_agent_def add_agent_def cover_add split: if_splits)
  next
    case (RemoveAgent n)
    with ms cs show ?thesis
      by (auto simp: remove_agent_def dest: cover_remove split: sum.splits)
  qed
  with m show ?thesis by (simp add: directory_ok_def)
qed

lemma mirrored_run_ops: "mirrored self \<Longrightarrow> mirrored (run_ops self ops)"
  unfolding run_ops_def
  by (induction ops arbitrary: self) (simp_all add: mirrored_apply_op)

lemma directory_ok_run_ops:
  "directory_ok self \<Longrightarrow> regular_run self ops \<Longrightarrow> directory_ok (run_ops self ops)"
  unfolding run_ops_def
  by (induction ops arbitrary: self) (simp_all add: directory_ok_apply_op)

text \<open>
  Why the second condition of \<open>stored_ok\<close> is needed: once a second name holds the
  \<^verbatim>\<open>url\<close> of a registered card, removing the first name takes the shared address away.
\<close>

lemma shared_url_breaks_lockstep:
  "card_names
     (run_ops (empty_registry (\<lambda>c. simulated_remote (UnaryTask (sample_task Completed)) []) None)
        [AddAgent ''http://mock-agent.test'' (Inr mock_agent_card),
         RegisterAgentCard (mock_agent_card\<lparr>card_name := ''Other''\<rparr>),
         RemoveAgent ''MockAgent'']) = {''Other''}
   \<and> names_with_address
     (run_ops (empty_registry (\<lambda>c. simulated_remote (UnaryTask (sample_task Completed)) []) None)
        [AddAgent ''http://mock-agent.test'' (Inr mock_agent_card),
         RegisterAgentCard (mock_agent_card\<lparr>card_name := ''Other''\<rparr>),
         RemoveAgent ''MockAgent'']) = {}"
  by (simp add: run_ops_def empty_registry_def add_agent_def register_agent_card_def
      refresh_agents_def store_card_def remove_agent_def remove_agent_card_def Let_def
      RemoteAgentConnections_init_def card_names_def names_with_address_def mock_agent_card_def)

text \<open>
  C1, as stated, fails: \<^verbatim>\<open>register_agent_card\<close> never touches the address list. After
  registering the test suite's card in an empty directory, the name is in the connections
  and in the cards, while no card's address is in the (empty) address list.
\<close>

theorem register_agent_card_skips_addresses:
  "connection_names
     (run_ops (empty_registry (\<lambda>c. simulated_remote (UnaryTask (sample_task Completed)) []) None)
        [RegisterAgentCard mock_agent_card]) = {''MockAgent''}
   \<and> card_names
     (run_ops (empty_registry (\<lambda>c. simulated_remote (UnaryTask (sample_task Completed)) []) None)
        [RegisterAgentCard mock_agent_card]) = {''MockAgent''}
   \<and> names_with_address
     (run_ops (empty_registry (\<lambda>c. simulated_remote (UnaryTask (sample_task Completed)) []) None)
        [RegisterAgentCard mock_agent_card]) = {}"
  by (simp add: run_ops_def empty_registry_def register_agent_card_def refresh_agents_def
      store_card_def connection_names_def card_names_def names_with_address_def
      mock_agent_card_def)

text \<open>
  C1, amended: starting from the empty registries, after every sequence of directory
  mutations (the constructor with initial addresses, its \<^verbatim>\<open>register_agent_cards\<close> task,
  \<^verbatim>\<open>register_agent_card\<close>, \<^verbatim>\<open>remove_agent_card\<close>, the management surfaces' add and
  remove) the names in the connections are the names in the cards. They are also the
  names whose card address is in the address list whenever every card stored on the way
  (by \<^verbatim>\<open>register_agent_cards\<close>, by \<^verbatim>\<open>register_agent_card\<close> or by a management add, there
  after the added address has been appended) has its \<^verbatim>\<open>url\<close> in the address list at that
  moment and no card registered under another name has the same \<^verbatim>\<open>url\<close>.
\<close>

theorem directory_names_lockstep:
  "connection_names (run_ops (empty_registry client cb) ops)
     = card_names (run_ops (empty_registry client cb) ops)
   \<and> (regular_run (empty_registry client cb) ops \<longrightarrow>
        names_with_address (run_ops (empty_registry client cb) ops)
          = card_names (run_ops (empty_registry client cb) ops))"
proof
  show "connection_names (run_ops (empty_registry client cb) ops)
          = card_names (run_ops (empty_registry client cb) ops)"
    by (intro mirrored_names mirrored_run_ops mirrored_empty)
next
  show "regular_run (empty_registry client cb) ops \<longrightarrow>
        names_with_address (run_ops (empty_registry client cb) ops)
          = card_names (run_ops (empty_registry client cb) ops)"
  proof
    assume "regular_run (empty_registry client cb) ops"
    then have "directory_ok (run_ops (empty_registry client cb) ops)"
      by (intro directory_ok_run_ops) (simp_all add: directory_ok_def mirrored_empty cover_empty)
    then show "names_with_address (run_ops (empty_registry client cb) ops)
          = card_names (run_ops (empty_registry client cb) ops)"
      by (simp add: directory_ok_def cover_names)
  qed
qed

theorem directory_names_lockstep_witness:
  "regular_run (empty_registry (\<lambda>c. simulated_remote (UnaryTask (sample_task Completed)) []) None)
     [Construct [''http://mock-agent.test'', ''http://other-agent.test''],
      RegisterAgentCards sample_resolver,
      AddAgent ''http://third-agent.test''
        (Inr (mock_agent_card\<lparr>card_name := ''Third'', card_url := ''http://third-agent.test''\<rparr>)),
      RemoveAgent ''Third'',
      RemoveAgent ''NonExistentAgent'']
   \<and> names_with_address
       (run_ops (empty_registry (\<lambda>c. simulated_remote (UnaryTask (sample_task Completed)) []) None)
          [Construct [''http://mock-agent.test'', ''http://other-agent.test''],
           RegisterAgentCards sample_resolver,
           AddAgent ''http://third-agent.test''
             (Inr (mock_agent_card\<lparr>card_name := ''Third'', card_url := ''http://third-agent.test''\<rparr>)),
           RemoveAgent ''Third'',
           RemoveAgent ''NonExistentAgent''])
     = card_names
       (run_ops (empty_registry (\<lambda>c. simulated_remote (UnaryTask (sample_task Completed)) []) None)
          [Construct [''http://mock-agent.test'', ''http://other-agent.test''],
           RegisterAgentCards sample_resolver,
           AddAgent ''http://third-agent.test''
             (Inr (mock_agent_card\<lparr>card_name := ''Third'', card_url := ''http://third-agent.test''\<rparr>)),
           RemoveAgent ''Third'',
           RemoveAgent ''NonExistentAgent''])
   \<and> card_names
       (run_ops (empty_registry (\<lambda>c. simulated_remote (UnaryTask (sample_task Completed)) []) None)
          [Construct [''http://mock-agent.test'', ''http://other-agent.test''],
           RegisterAgentCards sample_resolver,
           AddAgent ''http://third-agent.test''
             (Inr (mock_agent_card\<lparr>card_name := ''Third'', card_url := ''http://third-agent.test''\<rparr>)),
           RemoveAgent ''Third'',
           RemoveAgent ''NonExistentAgent'']) = {''MockAgent''}"
proof -
  let ?E = "empty_registry (\<lambda>c. simulated_remote (UnaryTask (sample_task Completed)) []) None"
  let ?ops = "[Construct [''http://mock-agent.test'', ''http://other-agent.test''],
      RegisterAgentCards sample_resolver,
      AddAgent ''http://third-agent.test''
        (Inr (mock_agent_card\<lparr>card_name := ''Third'', card_url := ''http://third-agent.test''\<rparr>)),
      RemoveAgent ''Third'',
      RemoveAgent ''NonExistentAgent'']"
  have m: "regular_run ?E ?ops"
    by (simp add: empty_registry_def HostAgent_init_def register_agent_cards_def
        sample_resolver_def stored_ok_def store_card_def refresh_agents_def add_agent_def
        register_agent_card_def remove_agent_def remove_agent_card_def Let_def
        RemoteAgentConnections_init_def mock_agent_card_def)
  have v: "card_names (run_ops ?E ?ops) = {''MockAgent''}"
    by (simp add: run_ops_def empty_registry_def HostAgent_init_def register_agent_cards_def
        sample_resolver_def store_card_def refresh_agents_def add_agent_def
        register_agent_card_def remove_agent_def remove_agent_card_def Let_def
        RemoteAgentConnections_init_def card_names_def mock_agent_card_def)
  from m v directory_names_lockstep [of _ None ?ops]
  show ?thesis by simp
qed

section \<open>History trimming\<close>

lemma before_model_callback_odd:
  "odd (length contents) \<Longrightarrow>
     before_model_callback contents = drop (length contents - 7) contents"
proof -
  assume "odd (length contents)"
  then obtain m where m: "length contents = 2 * m + 1" by (auto elim: oddE)
  then have turns: "(length contents - 1) div 2 = m" by simp
  have idx: "(m - 3) * 2 = 2 * m - 6" by arith
  from m turns idx show ?thesis
    by (cases "m \<le> 3") (simp_all add: before_model_callback_def HISTORY_LENGTH_def Let_def)
qed

lemma before_model_callback_even:
  "even (length contents) \<Longrightarrow> before_model_callback contents = contents"
  by (auto simp: before_model_callback_def Let_def)

text \<open>
  C3, as stated, fails: seven entries are three earlier turns and the current entry, so
  the start index is 0 and all seven entries are kept, not the last six.
\<close>

theorem seven_entries_not_trimmed:
  "before_model_callback [1, 2, 3, 4, 5, 6, 7 :: nat] = [1, 2, 3, 4, 5, 6, 7]
   \<and> before_model_callback [1, 2, 3, 4, 5, 6, 7 :: nat] \<noteq> [2, 3, 4, 5, 6, 7]"
  by (simp add: before_model_callback_def HISTORY_LENGTH_def Let_def)

text \<open>
  C3, amended: with the cap of 3 turns, exactly 7 entries are all kept and exactly 8
  entries (even) are all kept; an odd history is cut to its last 7 entries (3 turns of 2
  entries and the current entry), so trimming starts at 9 entries.
\<close>

theorem before_model_callback_keeps_last_seven:
  "(length contents = 7 \<longrightarrow> before_model_callback contents = contents)
   \<and> (length contents = 8 \<longrightarrow> before_model_callback contents = contents)
   \<and> before_model_callback contents =
       (if odd (length contents) then drop (length contents - 7) contents else contents)"
  using before_model_callback_odd [of contents] before_model_callback_even [of contents]
  by auto

theorem before_model_callback_keeps_last_seven_witness:
  "length [1, 2, 3, 4, 5, 6, 7 :: nat] = 7
   \<and> before_model_callback [1, 2, 3, 4, 5, 6, 7 :: nat] = [1, 2, 3, 4, 5, 6, 7]
   \<and> length [1, 2, 3, 4, 5, 6, 7, 8 :: nat] = 8
   \<and> before_model_callback [1, 2, 3, 4, 5, 6, 7, 8 :: nat] = [1, 2, 3, 4, 5, 6, 7, 8]
   \<and> before_model_callback [1, 2, 3, 4, 5, 6, 7, 8, 9 :: nat] = [3, 4, 5, 6, 7, 8, 9]"
  using before_model_callback_keeps_last_seven [of "[1, 2, 3, 4, 5, 6, 7 :: nat]"]
    before_model_callback_keeps_last_seven [of "[1, 2, 3, 4, 5, 6, 7, 8 :: nat]"]
    before_model_callback_keeps_last_seven [of "[1, 2, 3, 4, 5, 6, 7, 8, 9 :: nat]"]
  by simp

section \<open>The streamed exchange\<close>


lemma consume_stream_no_callback:
  "fst (consume_stream None c (map StreamTaskEvent evs) None task k obs) = Inr (task_result task)"
  by (induction evs arbitrary: k) simp_all

lemma consume_stream_counts:
  "k \<le> fst (snd (consume_stream cb c rs ending task k obs))"
proof (induction cb c rs ending task k obs rule: consume_stream.induct)
  case (1 cb c ending task k obs)
  show ?case by (simp split: option.splits)
next
  case (4 cb c ev rs ending task k obs)
  then show ?case by (auto simp: Let_def dest: Suc_leD)
qed simp_all

lemma consume_stream_takes_first:
  "k < fst (snd (consume_stream cb c (r # rs) ending task k obs))"
proof (cases r)
  case (StreamTaskEvent ev)
  have "Suc k \<le> fst (snd (consume_stream cb c rs ending
          (case cb of Some f \<Rightarrow> Some (f ev c) | None \<Rightarrow> task) (Suc k)
          (case cb of Some f \<Rightarrow> obs @ [ev] | None \<Rightarrow> obs)))"
    by (rule consume_stream_counts)
  with StreamTaskEvent show ?thesis by (simp add: Let_def)
qed simp_all

lemma consume_stream_to_the_end:
  "evs \<noteq> [] \<Longrightarrow> list_all (\<lambda>ev. \<not> event_final ev) (butlast evs) \<Longrightarrow>
   fst (consume_stream (Some f) c (map StreamTaskEvent evs) None task k obs)
     = Inr (ResultTask (f (last evs) c))"
proof (induction evs arbitrary: task k obs)
  case Nil
  then show ?case by simp
next
  case (Cons ev evs)
  show ?case
  proof (cases "evs = []")
    case True
    then show ?thesis by (simp add: Let_def)
  next
    case False
    with Cons.prems have "\<not> event_final ev" "list_all (\<lambda>ev. \<not> event_final ev) (butlast evs)"
      by simp_all
    with False Cons.IH show ?thesis by (simp add: Let_def)
  qed
qed




text \<open>
  C10: in a streamed exchange that delivers only task events and then ends, a call without
  a task-observer callback returns \<^verbatim>\<open>None\<close>, although it took events from the stream
  whenever there were any; with a callback, when every event but possibly the last is
  non-final, the value returned is what the callback returned for the last event.
\<close>

theorem streamed_exchange_returns_callback_value:
  assumes "card_streaming (conn_card self) = Some True"
    and "client_send_message_streaming (conn_agent_client self) request =
           (map StreamTaskEvent evs, None)"
  shows "outcome (RemoteAgentConnections_send_message self request None True) = Inr ResultNone
         \<and> (evs \<noteq> [] \<longrightarrow>
              0 < consumed (RemoteAgentConnections_send_message self request None True))
         \<and> (evs \<noteq> [] \<and> list_all (\<lambda>ev. \<not> event_final ev) (butlast evs) \<longrightarrow>
              outcome (RemoteAgentConnections_send_message self request (Some f) True)
                = Inr (ResultTask (f (last evs) (conn_card self))))"
proof (intro conjI impI)
  show "outcome (RemoteAgentConnections_send_message self request None True) = Inr ResultNone"
    using assms consume_stream_no_callback [of "conn_card self" evs None 0 "[]"]
    by (simp add: RemoteAgentConnections_send_message_def case_prod_beta)
next
  assume "evs \<noteq> []"
  then obtain ev evs' where "evs = ev # evs'" by (cases evs) auto
  then show "0 < consumed (RemoteAgentConnections_send_message self request None True)"
    using assms
      consume_stream_takes_first [of 0 None "conn_card self" "StreamTaskEvent ev"
        "map StreamTaskEvent evs'" None None "[]"]
    by (simp add: RemoteAgentConnections_send_message_def case_prod_beta)
next
  assume "evs \<noteq> [] \<and> list_all (\<lambda>ev. \<not> event_final ev) (butlast evs)"
  then show "outcome (RemoteAgentConnections_send_message self request (Some f) True)
                = Inr (ResultTask (f (last evs) (conn_card self)))"
    using assms consume_stream_to_the_end [of evs f "conn_card self" None 0 "[]"]
    by (simp add: RemoteAgentConnections_send_message_def case_prod_beta)
qed

theorem streamed_exchange_returns_callback_value_witness:
  "card_streaming (conn_card (sample_connection (UnaryTask (sample_task Completed)))) = Some True
   \<and> client_send_message_streaming
        (conn_agent_client (sample_connection (UnaryTask (sample_task Completed)))) sample_request
       = (map StreamTaskEvent [TaskStatusUpdateEvent ''task-1'' Working False,
                               TaskStatusUpdateEvent ''task-1'' Completed True], None)
   \<and> outcome (RemoteAgentConnections_send_message
                (sample_connection (UnaryTask (sample_task Completed))) sample_request None True)
       = Inr ResultNone
   \<and> 0 < consumed (RemoteAgentConnections_send_message
                (sample_connection (UnaryTask (sample_task Completed))) sample_request None True)
   \<and> outcome (RemoteAgentConnections_send_message
                (sample_connection (UnaryTask (sample_task Completed))) sample_request
                (Some sample_callback) True)
       = Inr (ResultTask (sample_task Completed))"
proof -
  have a: "card_streaming (conn_card (sample_connection (UnaryTask (sample_task Completed))))
             = Some True"
    by (simp add: sample_connection_def RemoteAgentConnections_init_def mock_agent_card_def)
  have b: "client_send_message_streaming
        (conn_agent_client (sample_connection (UnaryTask (sample_task Completed)))) sample_request
       = (map StreamTaskEvent [TaskStatusUpdateEvent ''task-1'' Working False,
                               TaskStatusUpdateEvent ''task-1'' Completed True], None)"
    by (simp add: sample_connection_def RemoteAgentConnections_init_def simulated_remote_def
        sample_events_def)
  have e: "sample_callback (TaskStatusUpdateEvent ''task-1'' Completed True)
             (conn_card (sample_connection (UnaryTask (sample_task Completed))))
           = sample_task Completed"
    by (simp add: sample_task_def)
  from streamed_exchange_returns_callback_value [OF a b, of sample_callback] a b e
  show ?thesis by simp
qed

section \<open>Delegation: task-state policy\<close>

lemma snd_rewrap:
  "snd (case x of (Inl e, s) \<Rightarrow> (Inl e, s) | (Inr v, s) \<Rightarrow> (Inr (f v), s)) = snd x"
  by (auto split: prod.splits sum.splits)

lemma convert_part_keeps:
  "ctx_state (snd (convert_part rt p tc)) = ctx_state tc
   \<and> (skip_summarization tc \<longrightarrow> skip_summarization (snd (convert_part rt p tc)))
   \<and> (escalate tc \<longrightarrow> escalate (snd (convert_part rt p tc)))"
  by (cases "(rt, p, tc)" rule: convert_part.cases) (simp_all split: option.splits)

lemma convert_parts_keeps:
  "ctx_state (snd (convert_parts rt ps tc)) = ctx_state tc
   \<and> (skip_summarization tc \<longrightarrow> skip_summarization (snd (convert_parts rt ps tc)))
   \<and> (escalate tc \<longrightarrow> escalate (snd (convert_parts rt ps tc)))"
proof (induction ps arbitrary: tc)
  case Nil
  show ?case by simp
next
  case (Cons p ps)
  obtain r tc' where step: "convert_part rt p tc = (r, tc')" by (cases "convert_part rt p tc")
  with convert_part_keeps [of rt p tc]
  have tc': "ctx_state tc' = ctx_state tc" "skip_summarization tc \<longrightarrow> skip_summarization tc'"
    "escalate tc \<longrightarrow> escalate tc'"
    by simp_all
  show ?case
  proof (cases r)
    case (Inl e)
    with step tc' show ?thesis by simp
  next
    case (Inr v)
    with step tc' Cons.IH [of tc'] show ?thesis
      by (simp add: snd_rewrap)
  qed
qed

lemma convert_artifacts_keeps:
  "ctx_state (snd (convert_artifacts rt as tc)) = ctx_state tc
   \<and> (skip_summarization tc \<longrightarrow> skip_summarization (snd (convert_artifacts rt as tc)))
   \<and> (escalate tc \<longrightarrow> escalate (snd (convert_artifacts rt as tc)))"
proof (induction as arbitrary: tc)
  case Nil
  show ?case by simp
next
  case (Cons a as)
  obtain r tc' where step: "convert_parts rt (art_parts a) tc = (r, tc')"
    by (cases "convert_parts rt (art_parts a) tc")
  with convert_parts_keeps [of rt "art_parts a" tc]
  have tc': "ctx_state tc' = ctx_state tc" "skip_summarization tc \<longrightarrow> skip_summarization tc'"
    "escalate tc \<longrightarrow> escalate tc'"
    by simp_all
  show ?case
  proof (cases r)
    case (Inl e)
    with step tc' show ?thesis by simp
  next
    case (Inr v)
    with step tc' Cons.IH [of tc'] show ?thesis
      by (simp add: snd_rewrap)
  qed
qed

lemma collect_response_keeps:
  "ctx_state (snd (collect_response rt t tc)) = ctx_state tc
   \<and> (skip_summarization tc \<longrightarrow> skip_summarization (snd (collect_response rt t tc)))
   \<and> (escalate tc \<longrightarrow> escalate (snd (collect_response rt t tc)))"
proof -
  obtain r tc' where step:
    "(case task_status_message t of None \<Rightarrow> (Inr [], tc)
      | Some m \<Rightarrow> convert_parts rt (msg_parts m) tc) = (r, tc')"
    by (cases "(case task_status_message t of None \<Rightarrow> (Inr [], tc)
      | Some m \<Rightarrow> convert_parts rt (msg_parts m) tc)")
  have tc': "ctx_state tc' = ctx_state tc
      \<and> (skip_summarization tc \<longrightarrow> skip_summarization tc') \<and> (escalate tc \<longrightarrow> escalate tc')"
  proof (cases "task_status_message t")
    case None
    with step show ?thesis by simp
  next
    case (Some m)
    with step convert_parts_keeps [of rt "msg_parts m" tc] show ?thesis by simp
  qed
  show ?thesis
  proof (cases r)
    case (Inl e)
    with step tc' show ?thesis by (simp add: collect_response_def)
  next
    case (Inr v)
    with step tc' convert_artifacts_keeps [of rt "task_artifacts t" tc'] show ?thesis
      by (simp add: collect_response_def snd_rewrap)
  qed
qed

lemma send_message_try_task:
  assumes "map_of (remote_agent_connections self) agent_name = Some client"
    and "client_send_message (conn_agent_client client)
           (build_request rt message_text ((ctx_state tc)\<lparr>st_agent := Some agent_name\<rparr>))
         = Inr (UnaryTask t)"
  shows "send_message_try rt self agent_name message_text tc =
           (fst (task_policy rt agent_name t
                   (tc\<lparr>ctx_state := (ctx_state tc)\<lparr>st_agent := Some agent_name\<rparr>\<rparr>)),
            snd (task_policy rt agent_name t
                   (tc\<lparr>ctx_state := (ctx_state tc)\<lparr>st_agent := Some agent_name\<rparr>\<rparr>)),
            Some (RemoteAgentConnections_send_message client
                    (build_request rt message_text ((ctx_state tc)\<lparr>st_agent := Some agent_name\<rparr>))
                    (task_callback self) False))"
  using assms
  by (simp add: send_message_try_def Let_def RemoteAgentConnections_send_message_def
      case_prod_beta)

lemma host_send_message_task:
  assumes "map_of (remote_agent_connections self) agent_name = Some client"
    and "client_send_message (conn_agent_client client)
           (build_request rt message_text ((ctx_state tc)\<lparr>st_agent := Some agent_name\<rparr>))
         = Inr (UnaryTask t)"
  shows "fst (snd (HostAgent_send_message rt self agent_name message_text tc))
           = snd (task_policy rt agent_name t
                    (tc\<lparr>ctx_state := (ctx_state tc)\<lparr>st_agent := Some agent_name\<rparr>\<rparr>))"
  by (cases "fst (task_policy rt agent_name t
                    (tc\<lparr>ctx_state := (ctx_state tc)\<lparr>st_agent := Some agent_name\<rparr>\<rparr>))")
     (simp_all add: HostAgent_send_message_def send_message_try_task [OF assms])

text \<open>
  C5: when the remote answers a delegation with a task in the failed state, the body of
  \<^verbatim>\<open>send_message\<close> raises the failure error (the one the specification calls
  TaskFailedError: a \<^verbatim>\<open>ValueError\<close> naming the agent and the task), which the router
  boundary returns as error text; at that point the session state already holds the
  task's id, its context id if it has one, and an inactive session.
\<close>

theorem failed_task_raises_after_state_update:
  assumes "map_of (remote_agent_connections self) agent_name = Some client"
    and "client_send_message (conn_agent_client client)
           (build_request rt message_text ((ctx_state tc)\<lparr>st_agent := Some agent_name\<rparr>))
         = Inr (UnaryTask t)"
    and "task_status_state t = Failed"
  shows "fst (send_message_try rt self agent_name message_text tc)
           = Inl (ValueError (''Agent '' @ agent_name @ '' task '' @ task_id t @ '' failed''))
         \<and> fst (HostAgent_send_message rt self agent_name message_text tc)
           = ErrorText (ValueError (''Agent '' @ agent_name @ '' task '' @ task_id t @ '' failed''))
         \<and> st_task_id (ctx_state (fst (snd (HostAgent_send_message rt self agent_name message_text tc))))
           = Some (task_id t)
         \<and> st_context_id (ctx_state (fst (snd (HostAgent_send_message rt self agent_name message_text tc))))
           = (if task_contextId t \<noteq> [] then Some (task_contextId t)
              else st_context_id (ctx_state tc))
         \<and> st_session_active
             (ctx_state (fst (snd (HostAgent_send_message rt self agent_name message_text tc))))
           = Some False"
  using assms(3)
  by (simp add: HostAgent_send_message_def send_message_try_task [OF assms(1,2)]
      task_policy_def Let_def)

theorem failed_task_raises_after_state_update_witness:
  "map_of (remote_agent_connections (sample_host (UnaryTask (sample_task Failed)))) ''MockAgent''
     = Some (sample_connection (UnaryTask (sample_task Failed)))
   \<and> client_send_message (conn_agent_client (sample_connection (UnaryTask (sample_task Failed))))
       (build_request sample_runtime ''What is the weather in Paris?''
          ((ctx_state new_context)\<lparr>st_agent := Some ''MockAgent''\<rparr>))
     = Inr (UnaryTask (sample_task Failed))
   \<and> task_status_state (sample_task Failed) = Failed
   \<and> fst (HostAgent_send_message sample_runtime (sample_host (UnaryTask (sample_task Failed)))
            ''MockAgent'' ''What is the weather in Paris?'' new_context)
     = ErrorText (ValueError ''Agent MockAgent task task-1 failed'')
   \<and> st_task_id (ctx_state (fst (snd (HostAgent_send_message sample_runtime
            (sample_host (UnaryTask (sample_task Failed)))
            ''MockAgent'' ''What is the weather in Paris?'' new_context))))
     = Some ''task-1''
   \<and> st_context_id (ctx_state (fst (snd (HostAgent_send_message sample_runtime
            (sample_host (UnaryTask (sample_task Failed)))
            ''MockAgent'' ''What is the weather in Paris?'' new_context))))
     = Some ''ctx-1''"
proof -
  have a: "map_of (remote_agent_connections (sample_host (UnaryTask (sample_task Failed))))
             ''MockAgent'' = Some (sample_connection (UnaryTask (sample_task Failed)))"
    by (simp add: sample_host_def sample_connection_def register_agent_card_def
        refresh_agents_def store_card_def empty_registry_def mock_agent_card_def)
  have b: "client_send_message
             (conn_agent_client (sample_connection (UnaryTask (sample_task Failed))))
             (build_request sample_runtime ''What is the weather in Paris?''
                ((ctx_state new_context)\<lparr>st_agent := Some ''MockAgent''\<rparr>))
           = Inr (UnaryTask (sample_task Failed))"
    by (simp add: sample_connection_def RemoteAgentConnections_init_def simulated_remote_def)
  have c: "task_status_state (sample_task Failed) = Failed"
    by (simp add: sample_task_def)
  have d: "task_id (sample_task Failed) = ''task-1''"
    "task_contextId (sample_task Failed) = ''ctx-1''"
    by (simp_all add: sample_task_def)
  from failed_task_raises_after_state_update [OF a b c] a b c d
  show ?thesis by simp
qed

text \<open>
  C6: when the remote answers a delegation with a task in the input-required state, the
  tool context leaves \<^verbatim>\<open>send_message\<close> with \<^verbatim>\<open>skip_summarization\<close> and \<^verbatim>\<open>escalate\<close>
  set and with \<^verbatim>\<open>session_active\<close> true in the session state, whatever the conversion
  of the task's parts does afterwards.
\<close>

theorem input_required_escalates:
  assumes "map_of (remote_agent_connections self) agent_name = Some client"
    and "client_send_message (conn_agent_client client)
           (build_request rt message_text ((ctx_state tc)\<lparr>st_agent := Some agent_name\<rparr>))
         = Inr (UnaryTask t)"
    and "task_status_state t = InputRequired"
  shows "skip_summarization (fst (snd (HostAgent_send_message rt self agent_name message_text tc)))
         \<and> escalate (fst (snd (HostAgent_send_message rt self agent_name message_text tc)))
         \<and> st_session_active
             (ctx_state (fst (snd (HostAgent_send_message rt self agent_name message_text tc))))
           = Some True"
proof -
  let ?tc1 = "tc\<lparr>ctx_state := (ctx_state tc)\<lparr>st_agent := Some agent_name\<rparr>\<rparr>"
  let ?st = "(ctx_state ?tc1)\<lparr>st_session_active := Some True\<rparr>"
  let ?st' = "(if task_contextId t \<noteq> [] then ?st\<lparr>st_context_id := Some (task_contextId t)\<rparr>
              else ?st)\<lparr>st_task_id := Some (task_id t)\<rparr>"
  let ?tc2 = "?tc1\<lparr>ctx_state := ?st', skip_summarization := True, escalate := True\<rparr>"
  from assms(3) have policy: "task_policy rt agent_name t ?tc1 = collect_response rt t ?tc2"
    by (simp add: task_policy_def Let_def)
  have flags: "skip_summarization ?tc2" "escalate ?tc2"
    "st_session_active (ctx_state ?tc2) = Some True"
    by simp_all
  from collect_response_keeps [of rt t ?tc2] flags
  have "skip_summarization (snd (collect_response rt t ?tc2))"
    "escalate (snd (collect_response rt t ?tc2))"
    "st_session_active (ctx_state (snd (collect_response rt t ?tc2))) = Some True"
    by simp_all
  then show ?thesis
    by (simp only: host_send_message_task [OF assms(1,2)] policy simp_thms)
qed

theorem input_required_escalates_witness:
  "map_of (remote_agent_connections (sample_host (UnaryTask (sample_task InputRequired))))
       ''MockAgent''
     = Some (sample_connection (UnaryTask (sample_task InputRequired)))
   \<and> client_send_message
       (conn_agent_client (sample_connection (UnaryTask (sample_task InputRequired))))
       (build_request sample_runtime ''What is the weather in Paris?''
          ((ctx_state new_context)\<lparr>st_agent := Some ''MockAgent''\<rparr>))
     = Inr (UnaryTask (sample_task InputRequired))
   \<and> task_status_state (sample_task InputRequired) = InputRequired
   \<and> skip_summarization (fst (snd (HostAgent_send_message sample_runtime
            (sample_host (UnaryTask (sample_task InputRequired)))
            ''MockAgent'' ''What is the weather in Paris?'' new_context)))
   \<and> escalate (fst (snd (HostAgent_send_message sample_runtime
            (sample_host (UnaryTask (sample_task InputRequired)))
            ''MockAgent'' ''What is the weather in Paris?'' new_context)))
   \<and> st_session_active (ctx_state (fst (snd (HostAgent_send_message sample_runtime
            (sample_host (UnaryTask (sample_task InputRequired)))
            ''MockAgent'' ''What is the weather in Paris?'' new_context))))
     = Some True"
proof -
  have a: "map_of (remote_agent_connections (sample_host (UnaryTask (sample_task InputRequired))))
             ''MockAgent'' = Some (sample_connection (UnaryTask (sample_task InputRequired)))"
    by (simp add: sample_host_def sample_connection_def register_agent_card_def
        refresh_agents_def store_card_def empty_registry_def mock_agent_card_def)
  have b: "client_send_message
             (conn_agent_client (sample_connection (UnaryTask (sample_task InputRequired))))
             (build_request sample_runtime ''What is the weather in Paris?''
                ((ctx_state new_context)\<lparr>st_agent := Some ''MockAgent''\<rparr>))
           = Inr (UnaryTask (sample_task InputRequired))"
    by (simp add: sample_connection_def RemoteAgentConnections_init_def simulated_remote_def)
  have c: "task_status_state (sample_task InputRequired) = InputRequired"
    by (simp add: sample_task_def)
  from input_required_escalates [OF a b c] a b c
  show ?thesis by simp
qed

section \<open>Delegation: the exchange used\<close>

lemma unary_when_not_requested:
  "exchange (RemoteAgentConnections_send_message client request cb False) = Unary
   \<and> consumed (RemoteAgentConnections_send_message client request cb False) = 0"
  by (simp add: RemoteAgentConnections_send_message_def split: sum.splits unary_response.splits)

lemma host_send_message_call:
  assumes "map_of (remote_agent_connections self) agent_name = Some client"
  shows "snd (snd (HostAgent_send_message rt self agent_name message_text tc))
           = Some (RemoteAgentConnections_send_message client
                     (build_request rt message_text
                        ((ctx_state tc)\<lparr>st_agent := Some agent_name\<rparr>))
                     (task_callback self) False)"
  using assms
  by (simp add: HostAgent_send_message_def send_message_try_def Let_def case_prod_beta
      split: sum.splits send_result.splits)

lemma host_agent_never_streams:
  "map_option exchange (snd (snd (HostAgent_send_message rt self agent_name message_text tc)))
     \<noteq> Some Streamed"
proof (cases "map_of (remote_agent_connections self) agent_name")
  case None
  then show ?thesis
    by (simp add: HostAgent_send_message_def send_message_try_def)
next
  case (Some client)
  then show ?thesis
    by (simp add: host_send_message_call unary_when_not_requested)
qed

text \<open>
  C2 does not hold of the code: \<^verbatim>\<open>HostAgent.send_message\<close> passes \<^verbatim>\<open>False\<close> as the
  streaming preference. For the mock agent, whose card declares streaming, the delegation
  is made with the unary call and nothing is taken from the stream.
\<close>

theorem delegation_to_streaming_agent_is_unary:
  "card_streaming mock_agent_card = Some True
   \<and> map_option conn_card
       (map_of (remote_agent_connections (sample_host (UnaryTask (sample_task Completed))))
          ''MockAgent'') = Some mock_agent_card
   \<and> map_option exchange
       (snd (snd (HostAgent_send_message sample_runtime
                    (sample_host (UnaryTask (sample_task Completed)))
                    ''MockAgent'' ''What is the weather in Paris?'' new_context)))
     = Some Unary
   \<and> map_option consumed
       (snd (snd (HostAgent_send_message sample_runtime
                    (sample_host (UnaryTask (sample_task Completed)))
                    ''MockAgent'' ''What is the weather in Paris?'' new_context)))
     = Some 0"
proof -
  have a: "map_of (remote_agent_connections (sample_host (UnaryTask (sample_task Completed))))
             ''MockAgent'' = Some (sample_connection (UnaryTask (sample_task Completed)))"
    by (simp add: sample_host_def sample_connection_def register_agent_card_def
        refresh_agents_def store_card_def empty_registry_def mock_agent_card_def)
  have b: "conn_card (sample_connection (UnaryTask (sample_task Completed))) = mock_agent_card"
    by (simp add: sample_connection_def RemoteAgentConnections_init_def)
  have c: "card_streaming mock_agent_card = Some True"
    by (simp add: mock_agent_card_def)
  from a b c show ?thesis
    by (simp add: host_send_message_call [OF a] unary_when_not_requested)
qed

section \<open>Orchestrator streams and the execution adapter\<close>

lemma AgentEvolution_stream_ends_normally:
  "snd (AgentEvolution_stream env evs ending) = StreamDone"
  by (simp add: AgentEvolution_stream_def)

lemma AgentEvolution_stream_reports_failure:
  "AgentEvolution_stream env evs (RunRaises e) =
     (map (AgentEvolution_item env) evs @
        [TaskComplete (TextContent (if e = TimeoutError
                                    then ''Agent timed out while processing request''
                                    else ''Agent error: '' @ error_str e))],
      StreamDone)"
  by (cases e) (simp_all add: AgentEvolution_stream_def)

lemma RouterAgent_stream_lets_failure_through:
  "list_all (\<lambda>ev. \<not> event_is_final_response ev) evs \<Longrightarrow>
   RouterAgent_stream evs ending =
     (map (\<lambda>ev. TaskUpdates RouterAgent_processing_message) evs, end_of_run ending)"
  by (induction evs) simp_all

text \<open>
  C7 does not hold of \<^verbatim>\<open>RouterAgent.stream\<close>, which has neither a timeout nor a
  handler around its loop: when the run raises after one progress event, the stream raises
  the same exception after one update, and \<^verbatim>\<open>execute\<close>, consuming it for a first-turn
  request, raises too after the task and one working update; when no further event
  arrives, the stream waits. On the same runs \<^verbatim>\<open>AgentEvolution.stream\<close> ends normally
  with a terminal content item.
\<close>

theorem router_stream_propagates_exception:
  "RouterAgent_stream [\<lparr>event_is_final_response = False, event_content = None\<rparr>]
       (RunRaises (OtherError ''connection refused''))
     = ([TaskUpdates ''Processing the reimbursement request...''],
        StreamRaised (OtherError ''connection refused''))
   \<and> RouterAgent_stream [\<lparr>event_is_final_response = False, event_content = None\<rparr>] RunStalls
     = ([TaskUpdates ''Processing the reimbursement request...''], StreamStalled)
   \<and> MyAgentExecutor_execute (\<lambda>m. sample_task Submitted)
       (\<lambda>query session.
          RouterAgent_stream [\<lparr>event_is_final_response = False, event_content = None\<rparr>]
            (RunRaises (OtherError ''connection refused'')))
       first_turn_request_context
     = ([EnqueueTask (sample_task Submitted),
         UpdateStatus Working
           (AgentTextMessage ''Processing the reimbursement request...'' ''ctx-1'' ''task-1'')
           False],
        StreamRaised (OtherError ''connection refused''))
   \<and> AgentEvolution_stream None [\<lparr>event_is_final_response = False, event_content = None\<rparr>]
       (RunRaises (OtherError ''connection refused''))
     = ([TaskUpdates ''Processing...'',
         TaskComplete (TextContent ''Agent error: connection refused'')], StreamDone)
   \<and> AgentEvolution_stream None [\<lparr>event_is_final_response = False, event_content = None\<rparr>]
       RunStalls
     = ([TaskUpdates ''Processing...'',
         TaskComplete (TextContent ''Agent timed out while processing request'')], StreamDone)"
  by (simp add: RouterAgent_processing_message_def MyAgentExecutor_execute_def
      first_turn_request_context_def sample_task_def
      AgentEvolution_stream_def AgentEvolution_processing_message_def)

text \<open>
  C8 does not hold of \<^verbatim>\<open>RouterAgent.stream\<close>: for a final event without content it
  yields a complete item whose content is the empty string, and \<^verbatim>\<open>execute\<close>, consuming
  it for a first-turn request, then publishes an empty artifact and completes the task.
  On the same event \<^verbatim>\<open>AgentEvolution.stream\<close> yields the processing update.
\<close>

theorem router_stream_completes_on_empty_content:
  "RouterAgent_stream [\<lparr>event_is_final_response = True, event_content = None\<rparr>] RunFinished
     = ([TaskComplete (TextContent [])], StreamDone)
   \<and> RouterAgent_stream
       [\<lparr>event_is_final_response = True, event_content = Some (Content (Some []))\<rparr>] RunFinished
     = ([TaskComplete (TextContent [])], StreamDone)
   \<and> MyAgentExecutor_execute (\<lambda>m. sample_task Submitted)
       (\<lambda>query session.
          RouterAgent_stream [\<lparr>event_is_final_response = True, event_content = None\<rparr>]
            RunFinished)
       first_turn_request_context
     = ([EnqueueTask (sample_task Submitted), AddArtifact [TextPart []] ''form'', Complete],
        StreamDone)
   \<and> AgentEvolution_stream None [\<lparr>event_is_final_response = True, event_content = None\<rparr>]
       RunFinished
     = ([TaskUpdates ''Processing...''], StreamDone)"
  by (simp add: RouterAgent_response_def MyAgentExecutor_execute_def
      first_turn_request_context_def sample_task_def
      AgentEvolution_stream_def AgentEvolution_processing_message_def
      AgentEvolution_response_def List.map_filter_simps)

lemma process_items_updates:
  "process_items t (map TaskUpdates us @ items) fin =
     (map (\<lambda>u. UpdateStatus Working (AgentTextMessage u (task_contextId t) (task_id t)) False) us
        @ fst (process_items t items fin),
      snd (process_items t items fin))"
  by (induction us) (simp_all add: case_prod_beta)

text \<open>
  On a first-turn request \<^verbatim>\<open>execute\<close> does what C9 says: after the new task and one
  working update per earlier item, exactly one artifact named ``form'' with the text,
  completion, and the rest of the stream unread.
\<close>

lemma execute_first_turn_publishes_form:
  assumes "rc_current_task context = None"
    and "agent_stream (rc_user_input context) (task_contextId (new_task (rc_message context)))
           = (map TaskUpdates us @ TaskComplete (TextContent text) # rest, fin)"
  shows "MyAgentExecutor_execute new_task agent_stream context =
           (EnqueueTask (new_task (rc_message context))
            # map (\<lambda>u. UpdateStatus Working
                          (AgentTextMessage u
                             (task_contextId (new_task (rc_message context)))
                             (task_id (new_task (rc_message context)))) False) us
            @ [AddArtifact [TextPart text] ''form'', Complete],
            StreamDone)"
  using assms
  by (simp add: MyAgentExecutor_execute_def Let_def process_items_updates)

lemma execute_existing_task_raises:
  "rc_current_task context = Some current \<Longrightarrow>
   MyAgentExecutor_execute new_task agent_stream context
     = ([], StreamRaised (AttributeError ''contextId''))"
  by (simp add: MyAgentExecutor_execute_def)

text \<open>
  C9 does not hold of \<^verbatim>\<open>execute\<close> for a request bound to an existing task: the stream
  offers one update and then a final item with plain text, but \<^verbatim>\<open>execute\<close> raises on
  reading \<^verbatim>\<open>context.contextId\<close> before it reads the stream, and publishes neither the
  artifact nor the completion. On the first-turn request with the same stream it
  publishes the artifact named ``form'' with the text and completes the task.
\<close>

theorem execute_existing_task_publishes_nothing:
  "rc_current_task sample_request_context = Some (sample_task Submitted)
   \<and> MyAgentExecutor_execute (\<lambda>m. sample_task Submitted)
       (\<lambda>query session.
          ([TaskUpdates ''Processing the reimbursement request...'',
            TaskComplete (TextContent ''Sunny, 20 C'')], StreamDone))
       sample_request_context
     = ([], StreamRaised (AttributeError ''contextId''))
   \<and> MyAgentExecutor_execute (\<lambda>m. sample_task Submitted)
       (\<lambda>query session.
          ([TaskUpdates ''Processing the reimbursement request...'',
            TaskComplete (TextContent ''Sunny, 20 C'')], StreamDone))
       first_turn_request_context
     = ([EnqueueTask (sample_task Submitted),
         UpdateStatus Working
           (AgentTextMessage ''Processing the reimbursement request...'' ''ctx-1'' ''task-1'')
           False,
         AddArtifact [TextPart ''Sunny, 20 C''] ''form'', Complete],
        StreamDone)"
  by (simp add: MyAgentExecutor_execute_def sample_request_context_def
      first_turn_request_context_def sample_task_def)

end
